theory Spec2Isabelle
  imports Main
begin

section \<open>Python values shared by the uploader script\<close>

text \<open>
  The uploader script is the Python program held in \<open>PYTHON_SCRIPT\<close>. A call of one of
  its functions either returns a value, leaves through \<open>sys.exit(code)\<close>, or lets an
  exception escape. \<open>Pending\<close> is the value of a call whose loop is still waiting for
  the remote side when the scripted remote answers are used up: it has not returned.
\<close>

record http_error =
  resp_status :: int
  content :: string

datatype py_exception =
    HttpException http_error
  | RefreshError
  | OtherException string

datatype 'a py_result =
    Return 'a
  | SysExit int
  | Raise py_exception
  | Pending

text \<open>\<open>pathlib.Path\<close>: the directory, the stem and the suffix of the last component.\<close>

record path =
  parent :: string
  stem :: string
  suffix :: string

definition name :: "path \<Rightarrow> string" where
  "name p = stem p @ suffix p"

definition with_suffix :: "path \<Rightarrow> string \<Rightarrow> path" where
  "with_suffix p ext = p\<lparr>suffix := ext\<rparr>"

section \<open>\<open>YouTubeUploader.upload_video\<close>\<close>

text \<open>The request built before the loop: \<open>body\<close> and the \<open>MediaFileUpload\<close> settings.\<close>

record insert_request =
  snippet_title :: string
  snippet_description :: string
  snippet_categoryId :: string
  status_privacyStatus :: string
  chunksize :: int
  resumable :: bool

definition insert_body :: "path \<Rightarrow> insert_request" where
  "insert_body file_path =
     \<lparr>snippet_title = stem file_path,
      snippet_description = ''Uploaded via CLI automation. Source: '' @ name file_path,
      snippet_categoryId = ''22'',
      status_privacyStatus = ''private'',
      chunksize = 1024 * 1024,
      resumable = True\<rparr>"

text \<open>
  What one call of \<open>request.next_chunk()\<close> does: it returns the pair
  \<open>(status, response)\<close>, where a status carries \<open>resumable_progress\<close> and a response is
  the dictionary of the finished upload, or it raises \<open>HttpError\<close>, or it raises another
  exception.
\<close>

type_synonym response = "string \<rightharpoonup> string"

datatype chunk_outcome =
    Chunk "int option" "response option"
  | ChunkHttpError http_error
  | ChunkException string

text \<open>\<open>tqdm\<close>: \<open>update(d)\<close> adds \<open>d\<close> to the counter \<open>n\<close>.\<close>

record tqdm =
  total :: int
  n :: int
  closed :: bool

definition tqdm_new :: "int \<Rightarrow> tqdm" where
  "tqdm_new file_size = \<lparr>total = file_size, n = 0, closed = False\<rparr>"

definition update :: "tqdm \<Rightarrow> int \<Rightarrow> tqdm" where
  "update bar d = bar\<lparr>n := n bar + d\<rparr>"

definition close :: "tqdm \<Rightarrow> tqdm" where
  "close bar = bar\<lparr>closed := True\<rparr>"

text \<open>
  The local state of \<open>upload_video\<close>. \<open>shown\<close> is a trace: the value of the progress
  bar's counter after each \<open>pbar.update\<close>, oldest first. \<open>log\<close> holds the messages
  given to \<open>logger\<close>, oldest first.
\<close>

record upload_state =
  previous_progress :: int
  pbar :: tqdm
  shown :: "int list"
  log :: "string list"

definition logger :: "string \<Rightarrow> upload_state \<Rightarrow> upload_state" where
  "logger msg st = st\<lparr>log := log st @ [msg]\<rparr>"

text \<open>What the body of \<open>while response is None\<close> decides for the loop.\<close>

datatype loop_ctl =
    Again
  | Done response
  | Stop "unit py_result"

definition on_status :: "int option \<Rightarrow> upload_state \<Rightarrow> upload_state" where
  "on_status status st =
     (case status of
        None \<Rightarrow> st
      | Some resumable_progress \<Rightarrow>
          (let current_progress = resumable_progress;
               bar = update (pbar st) (current_progress - previous_progress st)
           in st\<lparr>pbar := bar, shown := shown st @ [n bar],
                 previous_progress := current_progress\<rparr>))"

fun loop_body :: "upload_state \<Rightarrow> chunk_outcome \<Rightarrow> upload_state \<times> loop_ctl" where
  "loop_body st (Chunk status response) =
     (on_status status st, (case response of None \<Rightarrow> Again | Some r \<Rightarrow> Done r))"
| "loop_body st (ChunkHttpError e) =
     (if resp_status e = 403 then
        (logger ''[ERROR] Quota exceeded.'' st, Stop (SysExit 1))
      else if resp_status e \<in> set [500, 502, 503, 504] then
        (logger ''[WARNING] Network error, retrying chunk...'' st, Again)
      else
        (logger (''[ERROR] HTTP Error: '' @ content e) st, Stop (Raise (HttpException e))))"
| "loop_body st (ChunkException msg) =
     (logger (''[ERROR] Unexpected error: '' @ msg) st, Stop (SysExit 1))"

text \<open>
  The loop, run against the answers the remote side gives to the successive
  \<open>next_chunk\<close> calls. With the answers used up and no response yet, the loop is about
  to call \<open>next_chunk\<close> again: \<open>Stop Pending\<close>.
\<close>

fun upload_loop :: "upload_state \<Rightarrow> chunk_outcome list \<Rightarrow> upload_state \<times> loop_ctl" where
  "upload_loop st [] = (st, Stop Pending)"
| "upload_loop st (c # cs) =
     (case loop_body st c of
        (st', Again) \<Rightarrow> upload_loop st' cs
      | (st', ctl) \<Rightarrow> (st', ctl))"

definition upload_start :: "path \<Rightarrow> int \<Rightarrow> upload_state" where
  "upload_start file_path file_size =
     \<lparr>previous_progress = 0,
      pbar = tqdm_new file_size,
      shown = [],
      log = [CHR 0x0A # ''[UPLOAD] Processing: '' @ name file_path]\<rparr>"

fun upload_finish :: "upload_state \<times> loop_ctl \<Rightarrow> upload_state \<times> string option py_result" where
  "upload_finish (st, Done response) =
     (let st' = st\<lparr>pbar := close (pbar st)\<rparr>
      in case response ''id'' of
           Some video_id \<Rightarrow>
             (logger (''[SUCCESS] Video uploaded. ID: '' @ video_id) st', Return (Some video_id))
         | None \<Rightarrow>
             (logger ''[ERROR] Upload failed, no ID returned.'' st', Return None))"
| "upload_finish (st, Stop (SysExit code)) = (st, SysExit code)"
| "upload_finish (st, Stop (Raise e)) = (st, Raise e)"
| "upload_finish (st, _) = (st, Pending)"

definition upload_video ::
  "path \<Rightarrow> int \<Rightarrow> chunk_outcome list \<Rightarrow> upload_state \<times> string option py_result" where
  "upload_video file_path file_size answers =
     upload_finish (upload_loop (upload_start file_path file_size) answers)"


text \<open>
  Modelled from the spec: the byte range of the chunk the next \<open>next_chunk\<close> call
  sends. The client library computes it and is not part of the script; the spec's
  transfer engine reads the next \<open>chunkSize\<close> bytes, or the remainder, starting at the
  acknowledged offset.
\<close>

definition chunk_range :: "upload_state \<Rightarrow> int \<times> int" where
  "chunk_range st =
     (previous_progress st, min (previous_progress st + 1024 * 1024) (total (pbar st)))"

text \<open>Truthiness of an optional string, in Python and in JavaScript alike.\<close>

definition truthy :: "string option \<Rightarrow> bool" where
  "truthy v = (case v of None \<Rightarrow> False | Some s \<Rightarrow> s \<noteq> [])"

section \<open>\<open>YouTubeUploader.upload_caption\<close>\<close>

record caption_request =
  snippet_videoId :: string
  snippet_language :: string
  snippet_name :: string
  media :: path

text \<open>What \<open>captions().insert(...).execute()\<close> does.\<close>

datatype exec_outcome =
    ExecOk
  | ExecHttpError http_error
  | ExecException string

definition caption_body :: "string \<Rightarrow> path \<Rightarrow> string \<Rightarrow> caption_request" where
  "caption_body video_id caption_path language =
     \<lparr>snippet_videoId = video_id,
      snippet_language = language,
      snippet_name = ''Default ('' @ language @ '')'',
      media = caption_path\<rparr>"

text \<open>
  \<open>upload_caption\<close> returns its log messages and how the call ended. Only
  \<open>HttpError\<close> is caught; any other exception of \<open>execute\<close> escapes.
\<close>

definition upload_caption ::
  "string \<Rightarrow> path \<Rightarrow> string \<Rightarrow> exec_outcome \<Rightarrow> string list \<times> unit py_result" where
  "upload_caption video_id caption_path language answer =
     (let found = ''[INFO] Found subtitle: '' @ name caption_path @ ''. Uploading...''
      in case answer of
           ExecOk \<Rightarrow>
             ([found, ''[SUCCESS] Subtitle '' @ name caption_path @ '' attached to Video ''
                        @ video_id @ ''.''], Return ())
         | ExecHttpError e \<Rightarrow>
             ([found, ''[ERROR] Failed to upload caption: '' @ content e], Return ())
         | ExecException msg \<Rightarrow> ([found], Raise (OtherException msg)))"

section \<open>The upload loop of \<open>main\<close>\<close>

text \<open>
  The surroundings of one run: the size of each file, which files exist, the answers the
  remote side gives during each video's upload session, and its answer to a caption
  request.
\<close>

record surroundings =
  st_size :: "path \<Rightarrow> int"
  exists :: "path \<Rightarrow> bool"
  chunk_answers :: "path \<Rightarrow> chunk_outcome list"
  caption_answer :: "caption_request \<Rightarrow> exec_outcome"

text \<open>What \<open>main\<close> did, oldest first.\<close>

datatype event =
    UploadVideo path "string option py_result"
  | CaptionInsert caption_request exec_outcome

text \<open>The inner \<open>for sub_ext in [".srt", ".vtt"]\<close>: the first existing subtitle file.\<close>

fun find_subtitle :: "(path \<Rightarrow> bool) \<Rightarrow> path \<Rightarrow> string list \<Rightarrow> path option" where
  "find_subtitle ex video [] = None"
| "find_subtitle ex video (sub_ext # exts) =
     (let sub_file = with_suffix video sub_ext
      in if ex sub_file then Some sub_file else find_subtitle ex video exts)"

text \<open>
  The body of \<open>for video in video_files\<close>: the events of this video, and \<open>Return ()\<close>
  when the loop goes on to the next video.
\<close>

definition process_video :: "surroundings \<Rightarrow> path \<Rightarrow> event list \<times> unit py_result" where
  "process_video env video =
     (let r = snd (upload_video video (st_size env video) (chunk_answers env video));
          up = UploadVideo video r
      in case r of
           Return video_id \<Rightarrow>
             (if truthy video_id then
                (case find_subtitle (exists env) video [''.srt'', ''.vtt''] of
                   None \<Rightarrow> ([up], Return ())
                 | Some sub_file \<Rightarrow>
                     (let req = caption_body (the video_id) sub_file ''zh-TW'';
                          answer = caption_answer env req
                      in ([up, CaptionInsert req answer],
                          snd (upload_caption (the video_id) sub_file ''zh-TW'' answer))))
              else ([up], Return ()))
         | SysExit code \<Rightarrow> ([up], SysExit code)
         | Raise e \<Rightarrow> ([up], Raise e)
         | Pending \<Rightarrow> ([up], Pending))"

fun main_loop :: "surroundings \<Rightarrow> path list \<Rightarrow> event list \<times> unit py_result" where
  "main_loop env [] = ([], Return ())"
| "main_loop env (video # video_files) =
     (case process_video env video of
        (evs, Return u) \<Rightarrow>
          (let (later, r) = main_loop env video_files in (evs @ later, r))
      | (evs, r) \<Rightarrow> (evs, r))"

section \<open>\<open>YouTubeUploader._authenticate\<close>\<close>

text \<open>
  A credential object as the script reads it: \<open>valid\<close>, \<open>expired\<close> and
  \<open>refresh_token\<close> are the attributes tested, \<open>token\<close> is the access token.
\<close>

record credentials =
  token :: string
  valid :: bool
  expired :: bool
  refresh_token :: "string option"

text \<open>
  The identity provider: its answer to \<open>creds.refresh(Request())\<close> (\<open>None\<close> when the
  refresh raises), and what the local consent flow of lines 76 and 77 comes to: the
  credential it yields (\<open>Inr\<close>), or the message of the exception it raises (\<open>Inl\<close>).
\<close>

record identity_provider =
  refresh_answer :: "credentials \<Rightarrow> credentials option"
  consent_answer :: "string + credentials"

text \<open>
  The world \<open>_authenticate\<close> acts on: the pickled token files, whether
  \<open>client_secrets.json\<close> exists, and three traces: the credentials \<open>refresh\<close> was
  called on, the number of consent flows started, and every \<open>pickle.dump\<close>. A token
  file in \<open>token_files\<close> is one that \<open>pickle.load\<close> reads, and a \<open>pickle.dump\<close> is
  taken to succeed.
\<close>

record auth_world =
  token_files :: "string \<rightharpoonup> credentials"
  client_secrets :: bool
  refreshes :: "credentials list"
  flows :: nat
  dumps :: "(string \<times> credentials) list"
  out :: "string list"

definition MISSING_CLIENT_SECRETS_MESSAGE :: string where
  "MISSING_CLIENT_SECRETS_MESSAGE =
     [CHR 0x0A] @ ''[ERROR] client_secrets.json not found.'' @ [CHR 0x0A]
     @ ''Please enable the YouTube Data API v3 in Google Cloud Console,'' @ [CHR 0x0A]
     @ ''download the OAuth 2.0 Client credentials, and save them as ''
     @ [CHR 0x27] @ ''client_secrets.json'' @ [CHR 0x27] @ [CHR 0x0A]
     @ ''in this directory.'' @ [CHR 0x0A]"

definition say :: "string \<Rightarrow> auth_world \<Rightarrow> auth_world" where
  "say msg w = w\<lparr>out := out w @ [msg]\<rparr>"

definition token_file :: "string \<Rightarrow> string" where
  "token_file user_profile = ''token_'' @ user_profile @ ''.pickle''"

definition load_credentials :: "string \<Rightarrow> auth_world \<Rightarrow> credentials option \<times> auth_world" where
  "load_credentials user_profile w =
     (case token_files w (token_file user_profile) of
        None \<Rightarrow> (None, w)
      | Some c \<Rightarrow> (Some c, say (''[INFO] Loading credentials for user: '' @ user_profile) w))"

definition save_credentials :: "string \<Rightarrow> credentials \<Rightarrow> auth_world \<Rightarrow> auth_world" where
  "save_credentials user_profile c w =
     say (''[INFO] Credentials saved to '' @ token_file user_profile)
       (w\<lparr>token_files := (token_files w)(token_file user_profile \<mapsto> c),
          dumps := dumps w @ [(token_file user_profile, c)]\<rparr>)"

text \<open>
  The branch \<open>if creds and creds.expired and creds.refresh_token\<close> and its \<open>else\<close>:
  either a new credential, still to be saved, or the way the call ends.
\<close>

definition refreshable :: "credentials option \<Rightarrow> bool" where
  "refreshable creds =
     (case creds of None \<Rightarrow> False | Some c \<Rightarrow> expired c \<and> truthy (refresh_token c))"

definition obtain_credentials ::
  "identity_provider \<Rightarrow> string \<Rightarrow> credentials option \<Rightarrow> auth_world
     \<Rightarrow> (credentials py_result + credentials) \<times> auth_world" where
  "obtain_credentials idp user_profile creds w =
     (if refreshable creds then
        (let w1 = (say ''[INFO] Refreshing expired token...'' w)
                    \<lparr>refreshes := refreshes w @ [the creds]\<rparr>
         in case refresh_answer idp (the creds) of
              None \<Rightarrow> (Inl (Raise RefreshError), w1)
            | Some c' \<Rightarrow> (Inr c', w1))
      else
        (let w1 = say (''[INFO] No valid token found for '' @ [CHR 0x27] @ user_profile
                        @ [CHR 0x27] @ ''. Starting login flow...'') w
         in if \<not> client_secrets w1 then
              (Inl (SysExit 1), say MISSING_CLIENT_SECRETS_MESSAGE w1)
            else
              (let w2 = w1\<lparr>flows := flows w1 + 1\<rparr>
               in case consent_answer idp of
                    Inl msg \<Rightarrow> (Inl (Raise (OtherException msg)), w2)
                  | Inr c \<Rightarrow> (Inr c, w2))))"

definition needs_new :: "credentials option \<Rightarrow> bool" where
  "needs_new creds = (case creds of None \<Rightarrow> True | Some c \<Rightarrow> \<not> valid c)"

definition authenticate ::
  "identity_provider \<Rightarrow> string \<Rightarrow> auth_world \<Rightarrow> credentials py_result \<times> auth_world" where
  "authenticate idp user_profile w0 =
     (let (creds, w) = load_credentials user_profile w0
      in if needs_new creds then
           (case obtain_credentials idp user_profile creds w of
              (Inl ended, w1) \<Rightarrow> (ended, w1)
            | (Inr c, w1) \<Rightarrow> (Return c, save_credentials user_profile c w1))
         else (Return (the creds), w))"

subsection \<open>Two calls sharing one token file\<close>

text \<open>
  The same function cut at its accesses to the shared world: reading the token file
  (lines 60 to 63), deciding and obtaining a credential (lines 66 to 77), writing the
  token file (lines 80 to 82). A call is at one of these points or has ended.
\<close>

datatype auth_proc =
    AtLoad
  | AtCheck "credentials option"
  | AtSave credentials
  | Ended "credentials py_result"

fun auth_step ::
  "identity_provider \<Rightarrow> string \<Rightarrow> auth_proc \<Rightarrow> auth_world \<Rightarrow> auth_proc \<times> auth_world" where
  "auth_step idp user_profile AtLoad w =
     (let (creds, w1) = load_credentials user_profile w in (AtCheck creds, w1))"
| "auth_step idp user_profile (AtCheck creds) w =
     (if needs_new creds then
        (case obtain_credentials idp user_profile creds w of
           (Inl ended, w1) \<Rightarrow> (Ended ended, w1)
         | (Inr c, w1) \<Rightarrow> (AtSave c, w1))
      else (Ended (Return (the creds)), w))"
| "auth_step idp user_profile (AtSave c) w = (Ended (Return c), save_credentials user_profile c w)"
| "auth_step idp user_profile (Ended r) w = (Ended r, w)"

text \<open>
  Two calls for the same profile under a schedule: \<open>True\<close> lets the first call take its
  next step, \<open>False\<close> the second.
\<close>

fun concurrent ::
  "identity_provider \<Rightarrow> string \<Rightarrow> bool list \<Rightarrow> auth_proc \<times> auth_proc \<times> auth_world
     \<Rightarrow> auth_proc \<times> auth_proc \<times> auth_world" where
  "concurrent idp user_profile [] s = s"
| "concurrent idp user_profile (True # sched) (a, b, w) =
     (let (a', w') = auth_step idp user_profile a w
      in concurrent idp user_profile sched (a', b, w'))"
| "concurrent idp user_profile (False # sched) (a, b, w) =
     (let (b', w') = auth_step idp user_profile b w
      in concurrent idp user_profile sched (a, b', w'))"

section \<open>The client service: \<open>pollUploadStatus\<close>\<close>

record UploadJob =
  job_id :: string
  profile :: string
  video_filename :: string
  subtitle_filename :: "string option"
  title :: string
  status :: string
  video_progress :: int
  video_id :: "string option"
  video_url :: "string option"
  subtitle_uploaded :: bool
  completed :: bool
  error :: "string option"
  created_at :: string

text \<open>
  What happens inside the \<open>try\<close> of one \<open>poll\<close>: \<open>getUploadStatus\<close> yields a job and
  \<open>onUpdate\<close> returns, or \<open>getUploadStatus\<close> throws (the request failed or the
  response was not ok), or \<open>onUpdate\<close> itself throws on the job.
\<close>

datatype fetch_outcome =
    Fetched UploadJob
  | FetchThrows
  | UpdateThrows UploadJob

text \<open>
  The closure's state: the flag \<open>active\<close>, the jobs handed to \<open>onUpdate\<close>, the number
  of status requests sent, and the delay of the pending \<open>setTimeout(poll, ...)\<close>, if
  there is one.
\<close>

record poller =
  active :: bool
  updates :: "UploadJob list"
  requests :: nat
  timer :: "int option"

text \<open>
  One run of \<open>poll\<close> has two parts, with the \<open>await\<close> between them. The first part
  tests \<open>active\<close> and, when it is on, sends the request: \<open>poll_start\<close> says whether a
  request was sent. The second part runs when the answer is there and does not look at
  \<open>active\<close> again: \<open>poll_resume\<close>. The timer that started the run is used up.
\<close>

definition poll_start :: "poller \<Rightarrow> bool \<times> poller" where
  "poll_start st =
     (if \<not> active st then (False, st\<lparr>timer := None\<rparr>)
      else (True, st\<lparr>requests := requests st + 1, timer := None\<rparr>))"

definition poll_resume :: "int \<Rightarrow> poller \<Rightarrow> fetch_outcome \<Rightarrow> poller" where
  "poll_resume intervalMs sent answer =
     (case answer of
        Fetched job \<Rightarrow>
          (let told = sent\<lparr>updates := updates sent @ [job]\<rparr>
           in if completed job \<or> truthy (error job) then told\<lparr>active := False\<rparr>
              else told\<lparr>timer := Some intervalMs\<rparr>)
      | FetchThrows \<Rightarrow> sent\<lparr>timer := Some (intervalMs * 2)\<rparr>
      | UpdateThrows job \<Rightarrow>
          sent\<lparr>updates := updates sent @ [job], timer := Some (intervalMs * 2)\<rparr>)"

text \<open>A run of \<open>poll\<close> during which \<open>cancel\<close> is not called.\<close>

definition poll :: "int \<Rightarrow> poller \<Rightarrow> fetch_outcome \<Rightarrow> poller" where
  "poll intervalMs st answer =
     (case poll_start st of
        (False, st') \<Rightarrow> st'
      | (True, sent) \<Rightarrow> poll_resume intervalMs sent answer)"

definition cancel :: "poller \<Rightarrow> poller" where
  "cancel st = st\<lparr>active := False\<rparr>"

text \<open>
  The timer loop with no call of \<open>cancel\<close>: each pending timer fires and runs
  \<open>poll\<close> against the next answer; without a pending timer nothing runs any more.
\<close>

fun poll_run :: "int \<Rightarrow> poller \<Rightarrow> fetch_outcome list \<Rightarrow> poller" where
  "poll_run intervalMs st [] = st"
| "poll_run intervalMs st (a # answers) =
     (let st' = poll intervalMs st a
      in if timer st' = None then st' else poll_run intervalMs st' answers)"

definition pollUploadStatus :: "int option \<Rightarrow> fetch_outcome list \<Rightarrow> poller" where
  "pollUploadStatus intervalMs answers =
     poll_run (case intervalMs of None \<Rightarrow> 1000 | Some i \<Rightarrow> i)
       \<lparr>active = True, updates = [], requests = 0, timer = None\<rparr> answers"

section \<open>The client service: \<open>uploadVideo\<close>\<close>

datatype File = File string

datatype privacy = Private | Unlisted | Public

fun privacy_text :: "privacy \<Rightarrow> string" where
  "privacy_text Private = ''private''"
| "privacy_text Unlisted = ''unlisted''"
| "privacy_text Public = ''public''"

text \<open>The \<open>options\<close> object: an absent property is \<open>None\<close>.\<close>

record upload_options =
  profile :: "string option"
  title :: "string option"
  description :: "string option"
  privacy :: "privacy option"
  language :: "string option"

definition no_options :: upload_options where
  "no_options = \<lparr>profile = None, title = None, description = None, privacy = None, language = None\<rparr>"

datatype form_value = Blob File | Text string

type_synonym FormData = "(string \<times> form_value) list"

text \<open>JavaScript's \<open>v || d\<close> on an optional string.\<close>

definition or_else :: "string option \<Rightarrow> string \<Rightarrow> string" where
  "or_else v d = (case v of None \<Rightarrow> d | Some s \<Rightarrow> if s = [] then d else s)"

definition formData :: "File \<Rightarrow> File option \<Rightarrow> upload_options option \<Rightarrow> FormData" where
  "formData video subtitle options_arg =
     (let options = (case options_arg of None \<Rightarrow> no_options | Some given \<Rightarrow> given)
      in [(''video'', Blob video)]
         @ (case subtitle of None \<Rightarrow> [] | Some s \<Rightarrow> [(''subtitle'', Blob s)])
         @ [(''profile'', Text (or_else (upload_options.profile options) ''default''))]
         @ (if truthy (upload_options.title options)
            then [(''title'', Text (the (upload_options.title options)))] else [])
         @ [(''description'', Text (or_else (description options) [])),
            (''privacy'', Text (or_else (map_option privacy_text (privacy options)) ''private'')),
            (''language'', Text (or_else (language options) ''en''))])"

record UploadResponse =
  resp_job_id :: string
  message :: string
  status_url :: string

text \<open>
  The reply to \<open>POST /api/upload\<close>: ok with the body, or not ok with the \<open>detail\<close> of
  the error body.
\<close>

datatype upload_reply =
    ReplyOk UploadResponse
  | ReplyNotOk "string option"

text \<open>\<open>uploadVideo\<close>: the form it posts, and the value it resolves to or the message it throws.\<close>

definition uploadVideo ::
  "File \<Rightarrow> File option \<Rightarrow> upload_options option \<Rightarrow> upload_reply
     \<Rightarrow> FormData \<times> (string + UploadResponse)" where
  "uploadVideo video subtitle options_arg reply =
     (formData video subtitle options_arg,
      (case reply of
         ReplyOk body \<Rightarrow> Inr body
       | ReplyNotOk detail \<Rightarrow> Inl (or_else detail ''Upload failed'')))"

text \<open>\<open>FormData.getAll\<close>: the values appended under a key, in order.\<close>

definition getAll :: "FormData \<Rightarrow> string \<Rightarrow> form_value list" where
  "getAll fd key = map snd (filter (\<lambda>kv. fst kv = key) fd)"

text \<open>The offsets the remote side reports in the answers of one session, in order.\<close>

fun offsets :: "chunk_outcome list \<Rightarrow> int list" where
  "offsets [] = []"
| "offsets (Chunk (Some resumable_progress) response # cs) = resumable_progress # offsets cs"
| "offsets (c # cs) = offsets cs"

text \<open>The part of the state that does not depend on the log.\<close>

definition core :: "upload_state \<Rightarrow> int \<times> tqdm \<times> int list" where
  "core st = (previous_progress st, pbar st, shown st)"


section \<open>Facts about the upload loop\<close>

lemma on_status_log [simp]: "log (on_status s st) = log st"
  by (simp add: on_status_def Let_def split: option.splits)

lemma loop_body_transient:
  "resp_status e \<in> {500, 502, 503, 504} \<Longrightarrow>
   loop_body st (ChunkHttpError e) = (logger ''[WARNING] Network error, retrying chunk...'' st, Again)"
  by auto

lemma loop_body_quota:
  "resp_status e = 403 \<Longrightarrow>
   loop_body st (ChunkHttpError e) = (logger ''[ERROR] Quota exceeded.'' st, Stop (SysExit 1))"
  by simp

lemma loop_body_not_pending: "loop_body st c \<noteq> (s1, Stop Pending)"
  by (cases c) (auto split: option.splits)

lemma upload_loop_append:
  "upload_loop st before = (st', Stop Pending) \<Longrightarrow>
   upload_loop st (before @ cs) = upload_loop st' cs"
proof (induction before arbitrary: st)
  case Nil
  then show ?case by simp
next
  case (Cons c before)
  obtain s1 ctl where b: "loop_body st c = (s1, ctl)" by (cases "loop_body st c")
  show ?case
  proof (cases ctl)
    case Again
    with b Cons show ?thesis by simp
  next
    case (Done r)
    with b Cons.prems show ?thesis by simp
  next
    case (Stop r)
    with b Cons.prems have "upload_loop st (c # before) = (s1, Stop r)" by simp
    with Cons.prems have "r = Pending" by simp
    with b Stop loop_body_not_pending show ?thesis by blast
  qed
qed


lemma core_logger [simp]: "core (logger m st) = core st"
  by (simp add: core_def logger_def)

lemma core_on_status: "core a = core b \<Longrightarrow> core (on_status s a) = core (on_status s b)"
  by (auto simp: core_def on_status_def Let_def split: option.splits)


lemma loop_body_core:
  "core a = core b \<Longrightarrow>
   core (fst (loop_body a c)) = core (fst (loop_body b c)) \<and> snd (loop_body a c) = snd (loop_body b c)"
proof (cases c)
  case (Chunk status response)
  assume "core a = core b"
  from core_on_status [OF this, of status] Chunk show ?thesis by simp
next
  case (ChunkHttpError e)
  assume "core a = core b"
  with ChunkHttpError show ?thesis by simp
next
  case (ChunkException msg)
  assume "core a = core b"
  with ChunkException show ?thesis by simp
qed

lemma upload_loop_core:
  "core a = core b \<Longrightarrow>
   core (fst (upload_loop a cs)) = core (fst (upload_loop b cs)) \<and>
   snd (upload_loop a cs) = snd (upload_loop b cs)"
proof (induction cs arbitrary: a b)
  case Nil
  then show ?case by simp
next
  case (Cons c cs)
  obtain a1 ctl where A: "loop_body a c = (a1, ctl)" by (cases "loop_body a c")
  obtain b1 ctl' where B: "loop_body b c = (b1, ctl')" by (cases "loop_body b c")
  from loop_body_core [OF Cons.prems, of c] A B have E: "core a1 = core b1" "ctl' = ctl" by simp_all
  show ?case
  proof (cases ctl)
    case Again
    with A B E Cons.IH [OF E(1)] show ?thesis by simp
  next
    case (Done r)
    with A B E show ?thesis by simp
  next
    case (Stop r)
    with A B E show ?thesis by simp
  qed
qed

lemma upload_finish_snd: "snd (upload_finish (a, ctl)) = snd (upload_finish (b, ctl))"
  by (cases "(a, ctl)" rule: upload_finish.cases) (auto simp: Let_def split: option.splits)


lemma upload_loop_ended:
  "snd (upload_loop st before) \<noteq> Stop Pending \<Longrightarrow>
   upload_loop st (before @ cs) = upload_loop st before"
proof (induction before arbitrary: st)
  case Nil
  then show ?case by simp
next
  case (Cons c before)
  obtain s1 ctl where b: "loop_body st c = (s1, ctl)" by (cases "loop_body st c")
  show ?case
  proof (cases ctl)
    case Again
    with b Cons show ?thesis by simp
  next
    case (Done r)
    with b show ?thesis by simp
  next
    case (Stop r)
    with b show ?thesis by simp
  qed
qed

lemma upload_loop_transients:
  "\<forall>e \<in> set es. resp_status e \<in> {500, 502, 503, 504} \<Longrightarrow>
   upload_loop st (map ChunkHttpError es) =
     (st\<lparr>log := log st @ replicate (length es) ''[WARNING] Network error, retrying chunk...''\<rparr>,
      Stop Pending)"
proof (induction es arbitrary: st)
  case Nil
  then show ?case by simp
next
  case (Cons e es)
  then have t: "resp_status e \<in> {500, 502, 503, 504}"
    and r: "\<forall>e \<in> set es. resp_status e \<in> {500, 502, 503, 504}" by simp_all
  from loop_body_transient [OF t] Cons.IH [OF r] show ?case
    by (simp add: logger_def replicate_app_Cons_same)
qed

lemma upload_loop_skip_transients:
  assumes "\<forall>e \<in> set es. resp_status e \<in> {500, 502, 503, 504}"
  shows "snd (upload_loop st (before @ map ChunkHttpError es @ answers)) = snd (upload_loop st (before @ answers))
       \<and> core (fst (upload_loop st (before @ map ChunkHttpError es @ answers))) = core (fst (upload_loop st (before @ answers)))"
proof (cases "snd (upload_loop st before) = Stop Pending")
  case True
  then obtain s1 where b: "upload_loop st before = (s1, Stop Pending)"
    by (cases "upload_loop st before") simp
  let ?s2 = "s1\<lparr>log := log s1 @ replicate (length es) ''[WARNING] Network error, retrying chunk...''\<rparr>"
  have c: "core ?s2 = core s1" by (simp add: core_def)
  have "upload_loop st (before @ map ChunkHttpError es @ answers) = upload_loop s1 (map ChunkHttpError es @ answers)"
    using upload_loop_append [OF b] by simp
  also have "\<dots> = upload_loop ?s2 answers"
    using upload_loop_append [OF upload_loop_transients [OF assms, of s1]] by simp
  finally have l: "upload_loop st (before @ map ChunkHttpError es @ answers) = upload_loop ?s2 answers" .
  have r: "upload_loop st (before @ answers) = upload_loop s1 answers"
    using upload_loop_append [OF b] by simp
  from upload_loop_core [OF c, of answers] l r show ?thesis by simp
next
  case False
  from upload_loop_ended [OF False] show ?thesis by simp
qed


section \<open>The claims about the upload session\<close>

text \<open>
  Claim C2. A chunk request that fails with HTTP status 500, 502, 503 or 504 makes the
  loop go round again: the acknowledged offset, the progress bar and the byte range of
  the next chunk are those of the failed attempt. Any number of such failures in a row
  leaves the upload waiting for its next attempt, and failures of this kind anywhere in
  a session do not change how the call ends.
\<close>

theorem transient_failure_retries_same_chunk:
  assumes "resp_status e \<in> {500, 502, 503, 504}"
  shows "loop_body st (ChunkHttpError e) = (logger ''[WARNING] Network error, retrying chunk...'' st, Again)
       \<and> previous_progress (fst (loop_body st (ChunkHttpError e))) = previous_progress st
       \<and> pbar (fst (loop_body st (ChunkHttpError e))) = pbar st
       \<and> chunk_range (fst (loop_body st (ChunkHttpError e))) = chunk_range st
       \<and> (\<forall>k. snd (upload_loop st (replicate k (ChunkHttpError e))) = Stop Pending)
       \<and> (\<forall>k. snd (upload_video file_path file_size (before @ replicate k (ChunkHttpError e) @ answers))
              = snd (upload_video file_path file_size (before @ answers)))"
proof -
  have a: "loop_body st (ChunkHttpError e) = (logger ''[WARNING] Network error, retrying chunk...'' st, Again)"
    using loop_body_transient [OF assms] .
  have b: "snd (upload_loop st (replicate k (ChunkHttpError e))) = Stop Pending" for k
  proof -
    have "\<forall>x \<in> set (replicate k e). resp_status x \<in> {500, 502, 503, 504}" using assms by simp
    from upload_loop_transients [OF this, of st] show ?thesis by (simp add: map_replicate)
  qed
  have c: "snd (upload_video file_path file_size (before @ replicate k (ChunkHttpError e) @ answers))
              = snd (upload_video file_path file_size (before @ answers))" for k
  proof -
    have h: "\<forall>x \<in> set (replicate k e). resp_status x \<in> {500, 502, 503, 504}" using assms by simp
    let ?s = "upload_start file_path file_size"
    from upload_loop_skip_transients [OF h, of ?s before answers]
    have "snd (upload_loop ?s (before @ replicate k (ChunkHttpError e) @ answers)) = snd (upload_loop ?s (before @ answers))"
      by (simp add: map_replicate)
    then show ?thesis
      unfolding upload_video_def
      by (metis prod.collapse upload_finish_snd)
  qed
  from a b c show ?thesis by (simp add: logger_def chunk_range_def)
qed


theorem transient_failure_retries_same_chunk_witness:
  "resp_status \<lparr>resp_status = 503, content = ''Service Unavailable''\<rparr> \<in> {500, 502, 503, 504}
   \<and> chunk_range (fst (loop_body (upload_start \<lparr>parent = ''videos'', stem = ''clip'', suffix = ''.mp4''\<rparr> 3145728)
         (ChunkHttpError \<lparr>resp_status = 503, content = ''Service Unavailable''\<rparr>))) = (0, 1048576)
   \<and> snd (upload_video \<lparr>parent = ''videos'', stem = ''clip'', suffix = ''.mp4''\<rparr> 3145728
         ([Chunk (Some 1048576) None]
          @ replicate 2 (ChunkHttpError \<lparr>resp_status = 503, content = ''Service Unavailable''\<rparr>)
          @ [Chunk None (Some [''id'' \<mapsto> ''abc''])])) = Return (Some ''abc'')"
proof -
  let ?e = "\<lparr>resp_status = 503, content = ''Service Unavailable''\<rparr>"
  let ?p = "\<lparr>parent = ''videos'', stem = ''clip'', suffix = ''.mp4''\<rparr>"
  have h: "resp_status ?e \<in> {500, 502, 503, 504}" by simp
  have r: "chunk_range (upload_start ?p 3145728) = (0, 1048576)"
    by (simp add: chunk_range_def upload_start_def tqdm_new_def)
  have v: "snd (upload_video ?p 3145728 ([Chunk (Some 1048576) None] @ [Chunk None (Some [''id'' \<mapsto> ''abc''])]))
           = Return (Some ''abc'')"
    by (simp add: upload_video_def upload_start_def tqdm_new_def on_status_def update_def
        close_def logger_def Let_def)
  from transient_failure_retries_same_chunk
         [OF h, where st = "upload_start ?p 3145728" and file_path = ?p and file_size = 3145728
            and before = "[Chunk (Some 1048576) None]"
            and answers = "[Chunk None (Some [''id'' \<mapsto> ''abc''])]"]
  show ?thesis using h r v by metis
qed

lemma sorted_step:
  "sorted (lo # xs @ p # q # ys) \<Longrightarrow> sorted (lo # (xs @ [q]) @ q # ys)"
  by (auto simp: sorted_append)

lemma on_status_inv:
  assumes "sorted (lo # shown st @ previous_progress st # offsets (Chunk stat response # cs))"
    and "n (pbar st) = previous_progress st"
  shows "sorted (lo # shown (on_status stat st) @ previous_progress (on_status stat st) # offsets cs)
       \<and> n (pbar (on_status stat st)) = previous_progress (on_status stat st)"
proof (cases stat)
  case None
  with assms show ?thesis by (simp add: on_status_def)
next
  case (Some q)
  have s1: "shown (on_status (Some q) st) = shown st @ [q]"
    using assms(2) by (simp add: on_status_def update_def Let_def)
  have s2: "previous_progress (on_status (Some q) st) = q"
    by (simp add: on_status_def update_def Let_def)
  have s3: "n (pbar (on_status (Some q) st)) = q"
    using assms(2) by (simp add: on_status_def update_def Let_def)
  from assms(1) Some have "sorted (lo # shown st @ previous_progress st # q # offsets cs)" by simp
  from sorted_step [OF this] have "sorted (lo # (shown st @ [q]) @ q # offsets cs)" .
  with s1 s2 s3 Some show ?thesis by simp
qed


lemma logger_fields [simp]:
  "shown (logger m st) = shown st"
  "previous_progress (logger m st) = previous_progress st"
  "pbar (logger m st) = pbar st"
  by (simp_all add: logger_def)

lemma loop_body_inv:
  assumes "sorted (lo # shown st @ previous_progress st # offsets (c # cs))"
    and "n (pbar st) = previous_progress st"
  shows "sorted (lo # shown (fst (loop_body st c)) @ previous_progress (fst (loop_body st c)) # offsets cs)
       \<and> n (pbar (fst (loop_body st c))) = previous_progress (fst (loop_body st c))"
proof (cases c)
  case (Chunk stat response)
  from assms(1) have a: "sorted (lo # shown st @ previous_progress st # offsets (Chunk stat response # cs))"
    unfolding Chunk .
  from on_status_inv [OF a assms(2)] show ?thesis unfolding Chunk by simp
next
  case (ChunkHttpError e)
  with assms have "sorted (lo # shown st @ previous_progress st # offsets cs)" by simp
  with ChunkHttpError assms(2) show ?thesis by simp
next
  case (ChunkException msg)
  with assms have "sorted (lo # shown st @ previous_progress st # offsets cs)" by simp
  with ChunkException assms(2) show ?thesis by simp
qed

lemma sorted_cut: "sorted (lo # xs @ p # ys) \<Longrightarrow> sorted (lo # xs @ [p])"
  by (simp add: sorted_append)

lemma shown_sorted_inv:
  "sorted (lo # shown st @ previous_progress st # offsets cs) \<Longrightarrow>
   n (pbar st) = previous_progress st \<Longrightarrow>
   sorted (lo # shown (fst (upload_loop st cs)) @ [previous_progress (fst (upload_loop st cs))])
   \<and> n (pbar (fst (upload_loop st cs))) = previous_progress (fst (upload_loop st cs))"
proof (induction cs arbitrary: st)
  case Nil
  then show ?case by simp
next
  case (Cons c cs)
  obtain s1 ctl where b: "loop_body st c = (s1, ctl)" by (cases "loop_body st c")
  from loop_body_inv [OF Cons.prems] b
  have i: "sorted (lo # shown s1 @ previous_progress s1 # offsets cs)"
    and j: "n (pbar s1) = previous_progress s1" by simp_all
  show ?case
  proof (cases ctl)
    case Again
    with b Cons.IH [OF i j] show ?thesis by simp
  next
    case (Done r)
    with b sorted_cut [OF i] j show ?thesis by simp
  next
    case (Stop r)
    with b sorted_cut [OF i] j show ?thesis by simp
  qed
qed

lemma upload_finish_core:
  "shown (fst (upload_finish (st, ctl))) = shown st
   \<and> previous_progress (fst (upload_finish (st, ctl))) = previous_progress st
   \<and> n (pbar (fst (upload_finish (st, ctl)))) = n (pbar st)"
  by (cases "(st, ctl)" rule: upload_finish.cases)
     (auto simp: Let_def logger_def close_def split: option.splits)

lemma upload_loop_quota:
  "resp_status e = 403 \<Longrightarrow>
   upload_loop st (ChunkHttpError e # answers) = (logger ''[ERROR] Quota exceeded.'' st, Stop (SysExit 1))"
  by simp

lemma offsets_append: "offsets (xs @ ys) = offsets xs @ offsets ys"
  by (induction xs rule: offsets.induct) simp_all

lemma loop_body_offsets:
  assumes "n (pbar st) = previous_progress st"
  shows "shown (fst (loop_body st c)) = shown st @ offsets [c]
       \<and> previous_progress (fst (loop_body st c)) = last (previous_progress st # offsets [c])
       \<and> n (pbar (fst (loop_body st c))) = previous_progress (fst (loop_body st c))"
proof (cases c)
  case (Chunk stat response)
  show ?thesis
  proof (cases stat)
    case None
    with Chunk assms show ?thesis by (simp add: on_status_def)
  next
    case (Some q)
    with Chunk assms show ?thesis by (simp add: on_status_def update_def Let_def)
  qed
next
  case (ChunkHttpError e)
  with assms show ?thesis by simp
next
  case (ChunkException msg)
  with assms show ?thesis by simp
qed

lemma upload_loop_single: "fst (upload_loop st [c]) = fst (loop_body st c)"
  by (cases "loop_body st c") (simp split: loop_ctl.splits)

lemma upload_loop_offsets:
  "n (pbar st) = previous_progress st \<Longrightarrow> snd (upload_loop st cs) = Stop Pending \<Longrightarrow>
   shown (fst (upload_loop st cs)) = shown st @ offsets cs
   \<and> previous_progress (fst (upload_loop st cs)) = last (previous_progress st # offsets cs)
   \<and> n (pbar (fst (upload_loop st cs))) = previous_progress (fst (upload_loop st cs))"
proof (induction cs arbitrary: st)
  case Nil
  then show ?case by simp
next
  case (Cons c cs)
  obtain s1 ctl where b: "loop_body st c = (s1, ctl)" by (cases "loop_body st c")
  from loop_body_offsets [OF Cons.prems(1), of c] b
  have s: "shown s1 = shown st @ offsets [c]"
    and q: "previous_progress s1 = last (previous_progress st # offsets [c])"
    and i: "n (pbar s1) = previous_progress s1" by simp_all
  have again: "ctl = Again"
  proof (cases ctl)
    case Again
    then show ?thesis .
  next
    case (Done r)
    with b Cons.prems(2) show ?thesis by simp
  next
    case (Stop r)
    with b Cons.prems(2) have "loop_body st c = (s1, Stop Pending)" by simp
    with loop_body_not_pending show ?thesis by blast
  qed
  with b have u: "upload_loop st (c # cs) = upload_loop s1 cs" by simp
  with Cons.prems(2) have p: "snd (upload_loop s1 cs) = Stop Pending" by simp
  have o: "offsets (c # cs) = offsets [c] @ offsets cs"
    using offsets_append [of "[c]" cs] by simp
  from Cons.IH [OF i p] have
    "shown (fst (upload_loop s1 cs)) = shown s1 @ offsets cs"
    "previous_progress (fst (upload_loop s1 cs)) = last (previous_progress s1 # offsets cs)"
    "n (pbar (fst (upload_loop s1 cs))) = previous_progress (fst (upload_loop s1 cs))"
    by simp_all
  then show ?case unfolding u o s q by (simp add: last_append)
qed

lemma upload_video_offsets:
  assumes "snd (upload_loop (upload_start file_path file_size) before) = Stop Pending"
  shows "shown (fst (upload_video file_path file_size before)) = offsets before
       \<and> shown (fst (upload_video file_path file_size (before @ [c]))) = offsets (before @ [c])
       \<and> previous_progress (fst (upload_video file_path file_size (before @ [c])))
           = last (0 # offsets (before @ [c]))
       \<and> n (pbar (fst (upload_video file_path file_size (before @ [c]))))
           = last (0 # offsets (before @ [c]))"
proof -
  let ?s0 = "upload_start file_path file_size"
  have z: "n (pbar ?s0) = previous_progress ?s0" "shown ?s0 = []" "previous_progress ?s0 = 0"
    by (simp_all add: upload_start_def tqdm_new_def)
  obtain s1 where u: "upload_loop ?s0 before = (s1, Stop Pending)"
    using assms by (cases "upload_loop ?s0 before") simp
  from upload_loop_offsets [OF z(1) assms] u z
  have s: "shown s1 = offsets before" and q: "previous_progress s1 = last (0 # offsets before)"
    and i: "n (pbar s1) = previous_progress s1" by simp_all
  have a: "shown (fst (upload_video file_path file_size before)) = offsets before"
    using u s upload_finish_core [of s1 "Stop Pending"] by (simp add: upload_video_def)
  obtain s2 ctl where w: "upload_loop s1 [c] = (s2, ctl)" by (cases "upload_loop s1 [c]")
  have e: "s2 = fst (loop_body s1 c)" using upload_loop_single [of s1 c] w by simp
  from loop_body_offsets [OF i, of c] e s q
  have s2: "shown s2 = offsets before @ offsets [c]"
    and q2: "previous_progress s2 = last (last (0 # offsets before) # offsets [c])"
    and i2: "n (pbar s2) = previous_progress s2" by simp_all
  have l: "last (last (0 # offsets before) # offsets [c]) = last (0 # offsets (before @ [c]))"
    by (simp add: offsets_append)
  have v: "upload_video file_path file_size (before @ [c]) = upload_finish (s2, ctl)"
    using upload_loop_append [OF u, of "[c]"] w by (simp add: upload_video_def)
  from upload_finish_core [of s2 ctl] s2 q2 i2 l a show ?thesis
    unfolding v by (simp add: offsets_append)
qed

lemma upload_video_ended:
  "snd (upload_loop (upload_start file_path file_size) used) \<noteq> Stop Pending \<Longrightarrow>
   upload_video file_path file_size (used @ rest) = upload_video file_path file_size used"
  by (simp add: upload_video_def upload_loop_ended)


text \<open>
  Claim C1, as amended. The script shows the offsets that the remote side reports and
  nothing else. A status sets \<open>previous_progress\<close> to the offset it reports and moves
  the progress bar by the difference, so the values shown during a session are the
  offsets reported in the answers the loop has used, in order, and the bar's counter
  and \<open>previous_progress\<close> are the last of them (0 before the first); answers after the
  one that ends the loop are not used. A chunk that fails with status 500, 502, 503 or
  504 changes neither \<open>previous_progress\<close> nor the progress bar, and no update is
  shown for it. Whenever the offsets reported during a session never decrease
  (starting from 0), the counter shown by the progress bar never decreases either,
  retried chunks included.
\<close>

theorem progress_follows_reported_offsets:
  "(resp_status e \<in> {500, 502, 503, 504} \<longrightarrow>
      previous_progress (fst (loop_body st (ChunkHttpError e))) = previous_progress st
      \<and> pbar (fst (loop_body st (ChunkHttpError e))) = pbar st
      \<and> shown (fst (loop_body st (ChunkHttpError e))) = shown st)
   \<and> (sorted (0 # offsets answers) \<longrightarrow>
      sorted (0 # shown (fst (upload_video file_path file_size answers)))
      \<and> n (pbar (fst (upload_video file_path file_size answers)))
          = previous_progress (fst (upload_video file_path file_size answers)))
   \<and> previous_progress (fst (loop_body st (Chunk (Some q) response))) = q
   \<and> n (pbar (fst (loop_body st (Chunk (Some q) response))))
       = n (pbar st) + (q - previous_progress st)
   \<and> shown (fst (loop_body st (Chunk (Some q) response)))
       = shown st @ [n (pbar st) + (q - previous_progress st)]
   \<and> fst (loop_body st (Chunk None response)) = st
   \<and> (snd (upload_loop (upload_start file_path file_size) before) = Stop Pending \<longrightarrow>
        shown (fst (upload_video file_path file_size before)) = offsets before
        \<and> shown (fst (upload_video file_path file_size (before @ [c]))) = offsets (before @ [c])
        \<and> previous_progress (fst (upload_video file_path file_size (before @ [c])))
            = last (0 # offsets (before @ [c]))
        \<and> n (pbar (fst (upload_video file_path file_size (before @ [c]))))
            = last (0 # offsets (before @ [c])))
   \<and> (snd (upload_loop (upload_start file_path file_size) used) \<noteq> Stop Pending \<longrightarrow>
        upload_video file_path file_size (used @ rest) = upload_video file_path file_size used)"
proof -
  have a: "resp_status e \<in> {500, 502, 503, 504} \<Longrightarrow>
      previous_progress (fst (loop_body st (ChunkHttpError e))) = previous_progress st
      \<and> pbar (fst (loop_body st (ChunkHttpError e))) = pbar st
      \<and> shown (fst (loop_body st (ChunkHttpError e))) = shown st"
    using loop_body_transient [of e st] by (simp add: logger_def)
  have b: "sorted (0 # shown (fst (upload_video file_path file_size answers)))
      \<and> n (pbar (fst (upload_video file_path file_size answers)))
          = previous_progress (fst (upload_video file_path file_size answers))"
    if s: "sorted (0 # offsets answers)"
  proof -
    let ?s0 = "upload_start file_path file_size"
    have i: "sorted (0 # shown ?s0 @ previous_progress ?s0 # offsets answers)"
      using s by (simp add: upload_start_def)
    have j: "n (pbar ?s0) = previous_progress ?s0" by (simp add: upload_start_def tqdm_new_def)
    from shown_sorted_inv [OF i j]
    have k: "sorted (0 # shown (fst (upload_loop ?s0 answers)))
       \<and> n (pbar (fst (upload_loop ?s0 answers))) = previous_progress (fst (upload_loop ?s0 answers))"
      by (auto simp: sorted_append)
    obtain s1 ctl where u: "upload_loop ?s0 answers = (s1, ctl)" by (cases "upload_loop ?s0 answers")
    from k u upload_finish_core [of s1 ctl] show ?thesis by (simp add: upload_video_def)
  qed
  have c: "previous_progress (fst (loop_body st (Chunk (Some q) response))) = q
   \<and> n (pbar (fst (loop_body st (Chunk (Some q) response))))
       = n (pbar st) + (q - previous_progress st)
   \<and> shown (fst (loop_body st (Chunk (Some q) response)))
       = shown st @ [n (pbar st) + (q - previous_progress st)]
   \<and> fst (loop_body st (Chunk None response)) = st"
    by (simp add: on_status_def update_def Let_def)
  from a b c upload_video_offsets [of file_path file_size before c]
    upload_video_ended [of file_path file_size used rest]
  show ?thesis by blast
qed

theorem progress_follows_reported_offsets_witness:
  "sorted (0 # offsets [Chunk (Some 1048576) None, ChunkHttpError \<lparr>resp_status = 503, content = ''Service Unavailable''\<rparr>,
        Chunk (Some 2097152) None, Chunk (Some 3145728) (Some [''id'' \<mapsto> ''abc''])])
   \<and> resp_status \<lparr>resp_status = 503, content = ''Service Unavailable''\<rparr> \<in> {500, 502, 503, 504}
   \<and> snd (upload_loop (upload_start \<lparr>parent = ''videos'', stem = ''clip'', suffix = ''.mp4''\<rparr> 3145728)
        [Chunk (Some 1048576) None, ChunkHttpError \<lparr>resp_status = 503, content = ''Service Unavailable''\<rparr>, Chunk (Some 2097152) None]) = Stop Pending
   \<and> sorted (0 # shown (fst (upload_video \<lparr>parent = ''videos'', stem = ''clip'', suffix = ''.mp4''\<rparr> 3145728
       [Chunk (Some 1048576) None, ChunkHttpError \<lparr>resp_status = 503, content = ''Service Unavailable''\<rparr>,
        Chunk (Some 2097152) None, Chunk (Some 3145728) (Some [''id'' \<mapsto> ''abc''])])))
   \<and> shown (fst (upload_video \<lparr>parent = ''videos'', stem = ''clip'', suffix = ''.mp4''\<rparr> 3145728
       ([Chunk (Some 1048576) None, ChunkHttpError \<lparr>resp_status = 503, content = ''Service Unavailable''\<rparr>, Chunk (Some 2097152) None]
        @ [Chunk (Some 3145728) (Some [''id'' \<mapsto> ''abc''])])))
       = [1048576, 2097152, 3145728]
   \<and> n (pbar (fst (upload_video \<lparr>parent = ''videos'', stem = ''clip'', suffix = ''.mp4''\<rparr> 3145728
       ([Chunk (Some 1048576) None, ChunkHttpError \<lparr>resp_status = 503, content = ''Service Unavailable''\<rparr>, Chunk (Some 2097152) None]
        @ [Chunk (Some 3145728) (Some [''id'' \<mapsto> ''abc''])])))) = 3145728
   \<and> shown (fst (loop_body (upload_start \<lparr>parent = ''videos'', stem = ''clip'', suffix = ''.mp4''\<rparr> 3145728) (ChunkHttpError \<lparr>resp_status = 503, content = ''Service Unavailable''\<rparr>))) = []"
proof -
  let ?e = "\<lparr>resp_status = 503, content = ''Service Unavailable''\<rparr>"
  let ?p = "\<lparr>parent = ''videos'', stem = ''clip'', suffix = ''.mp4''\<rparr>"
  let ?b = "[Chunk (Some 1048576) None, ChunkHttpError ?e, Chunk (Some 2097152) None]"
  let ?c = "Chunk (Some 3145728) (Some [''id'' \<mapsto> ''abc''])"
  let ?a = "[Chunk (Some 1048576) None, ChunkHttpError ?e,
        Chunk (Some 2097152) None, Chunk (Some 3145728) (Some [''id'' \<mapsto> ''abc''])]"
  have h1: "sorted (0 # offsets ?a)" by simp
  have h2: "resp_status ?e \<in> {500, 502, 503, 504}" by simp
  have h3: "snd (upload_loop (upload_start ?p 3145728) ?b) = Stop Pending" by simp
  have s0: "shown (upload_start ?p 3145728) = []" by (simp add: upload_start_def)
  have o: "offsets (?b @ [?c]) = [1048576, 2097152, 3145728]" by simp
  note t = progress_follows_reported_offsets [where e = ?e and st = "upload_start ?p 3145728"
        and answers = ?a and file_path = ?p and file_size = 3145728 and before = ?b and c = ?c]
  from t h1 have a: "sorted (0 # shown (fst (upload_video ?p 3145728 ?a)))" by blast
  from t h2 s0 have b: "shown (fst (loop_body (upload_start ?p 3145728) (ChunkHttpError ?e))) = []"
    by metis
  from t h3 have c: "shown (fst (upload_video ?p 3145728 (?b @ [?c]))) = offsets (?b @ [?c])
      \<and> n (pbar (fst (upload_video ?p 3145728 (?b @ [?c])))) = last (0 # offsets (?b @ [?c]))"
    by blast
  from c have d: "shown (fst (upload_video ?p 3145728 (?b @ [?c]))) = [1048576, 2097152, 3145728]
      \<and> n (pbar (fst (upload_video ?p 3145728 (?b @ [?c])))) = 3145728"
    unfolding o by simp
  from h1 h2 h3 a b d show ?thesis by blast
qed

text \<open>
  The claim as stated fails: the loop has no guard of its own. When the remote side has
  reported 2 MiB, a chunk then fails with status 503 and, on the retry, the remote side
  reports 1 MiB, the progress bar is moved back by 1 MiB.
\<close>

theorem progress_regresses_with_reported_offset:
  "shown (fst (upload_video \<lparr>parent = ''videos'', stem = ''clip'', suffix = ''.mp4''\<rparr> 3145728
      [Chunk (Some 2097152) None,
       ChunkHttpError \<lparr>resp_status = 503, content = ''Service Unavailable''\<rparr>,
       Chunk (Some 1048576) None])) = [2097152, 1048576]
   \<and> previous_progress (fst (upload_video \<lparr>parent = ''videos'', stem = ''clip'', suffix = ''.mp4''\<rparr> 3145728
      [Chunk (Some 2097152) None,
       ChunkHttpError \<lparr>resp_status = 503, content = ''Service Unavailable''\<rparr>,
       Chunk (Some 1048576) None])) = 1048576
   \<and> \<not> sorted (shown (fst (upload_video \<lparr>parent = ''videos'', stem = ''clip'', suffix = ''.mp4''\<rparr> 3145728
      [Chunk (Some 2097152) None,
       ChunkHttpError \<lparr>resp_status = 503, content = ''Service Unavailable''\<rparr>,
       Chunk (Some 1048576) None])))"
  by (simp add: upload_video_def upload_start_def tqdm_new_def on_status_def update_def
      logger_def Let_def)

text \<open>
  Claim C3, as amended. A chunk request that fails with status 403 is not retried: the
  loop logs the quota message and leaves through \<open>sys.exit(1)\<close>, whatever the remote
  side would have answered later. The call does not return to \<open>main\<close>, so no later
  video of the batch is started.
\<close>

theorem quota_failure_exits_process:
  assumes "resp_status e = 403"
  shows "loop_body st (ChunkHttpError e) = (logger ''[ERROR] Quota exceeded.'' st, Stop (SysExit 1))
       \<and> upload_loop st (ChunkHttpError e # answers) = (logger ''[ERROR] Quota exceeded.'' st, Stop (SysExit 1))
       \<and> (snd (upload_loop (upload_start file_path file_size) before) = Stop Pending \<longrightarrow>
            upload_video file_path file_size (before @ ChunkHttpError e # answers)
              = (logger ''[ERROR] Quota exceeded.'' (fst (upload_loop (upload_start file_path file_size) before)),
                 SysExit 1))
       \<and> (snd (upload_loop (upload_start video (st_size env video)) before) = Stop Pending
            \<and> chunk_answers env video = before @ ChunkHttpError e # answers \<longrightarrow>
            main_loop env (video # video_files) = ([UploadVideo video (SysExit 1)], SysExit 1))"
proof -
  have a: "loop_body st (ChunkHttpError e) = (logger ''[ERROR] Quota exceeded.'' st, Stop (SysExit 1))"
    using assms by simp
  have b: "upload_loop st (ChunkHttpError e # answers) = (logger ''[ERROR] Quota exceeded.'' st, Stop (SysExit 1))"
    for st using upload_loop_quota [OF assms] .
  have c: "upload_video p sz (before @ ChunkHttpError e # answers)
              = (logger ''[ERROR] Quota exceeded.'' (fst (upload_loop (upload_start p sz) before)), SysExit 1)"
    if "snd (upload_loop (upload_start p sz) before) = Stop Pending" for p sz
  proof -
    from that obtain s1 where u: "upload_loop (upload_start p sz) before = (s1, Stop Pending)"
      by (cases "upload_loop (upload_start p sz) before") simp
    from upload_loop_append [OF u, of "ChunkHttpError e # answers"] b [of s1] u
    show ?thesis by (simp add: upload_video_def)
  qed
  have d: "main_loop env (video # video_files) = ([UploadVideo video (SysExit 1)], SysExit 1)"
    if "snd (upload_loop (upload_start video (st_size env video)) before) = Stop Pending"
      and "chunk_answers env video = before @ ChunkHttpError e # answers"
  proof -
    from c [OF that(1)] that(2)
    have "snd (upload_video video (st_size env video) (chunk_answers env video)) = SysExit 1" by simp
    then have "process_video env video = ([UploadVideo video (SysExit 1)], SysExit 1)"
      by (simp add: process_video_def Let_def)
    then show ?thesis by simp
  qed
  from a b c d show ?thesis by blast
qed

theorem quota_failure_exits_process_witness:
  "resp_status \<lparr>resp_status = 403, content = ''quotaExceeded''\<rparr> = 403
   \<and> snd (upload_loop (upload_start \<lparr>parent = ''videos'', stem = ''clip'', suffix = ''.mp4''\<rparr> 3145728)
        [Chunk (Some 1048576) None]) = Stop Pending
   \<and> snd (upload_video \<lparr>parent = ''videos'', stem = ''clip'', suffix = ''.mp4''\<rparr> 3145728
        ([Chunk (Some 1048576) None]
         @ ChunkHttpError \<lparr>resp_status = 403, content = ''quotaExceeded''\<rparr>
         # [Chunk None (Some [''id'' \<mapsto> ''abc''])])) = SysExit 1"
proof -
  let ?e = "\<lparr>resp_status = 403, content = ''quotaExceeded''\<rparr>"
  let ?p = "\<lparr>parent = ''videos'', stem = ''clip'', suffix = ''.mp4''\<rparr>"
  have h1: "resp_status ?e = 403" by simp
  have h2: "snd (upload_loop (upload_start ?p 3145728) [Chunk (Some 1048576) None]) = Stop Pending"
    by simp
  from quota_failure_exits_process
         [OF h1, where file_path = ?p and file_size = 3145728
            and before = "[Chunk (Some 1048576) None]"
            and answers = "[Chunk None (Some [''id'' \<mapsto> ''abc''])]"] h2
  have "upload_video ?p 3145728
          ([Chunk (Some 1048576) None] @ ChunkHttpError ?e # [Chunk None (Some [''id'' \<mapsto> ''abc''])])
        = (logger ''[ERROR] Quota exceeded.'' (fst (upload_loop (upload_start ?p 3145728) [Chunk (Some 1048576) None])),
           SysExit 1)"
    by blast
  then have "snd (upload_video ?p 3145728
          ([Chunk (Some 1048576) None] @ ChunkHttpError ?e # [Chunk None (Some [''id'' \<mapsto> ''abc''])]))
        = SysExit 1"
    by (rule arg_cong [where f = snd, THEN trans]) simp
  with h1 h2 show ?thesis by blast
qed

text \<open>
  The claim as stated fails: on status 403 the call returns nothing to its caller. It
  ends the process with exit status 1, as it does for an unexpected local exception, so
  what reaches the caller does not tell the two apart.
\<close>

theorem quota_failure_not_returned:
  "snd (upload_video \<lparr>parent = ''videos'', stem = ''clip'', suffix = ''.mp4''\<rparr> 3145728
      [ChunkHttpError \<lparr>resp_status = 403, content = ''quotaExceeded''\<rparr>]) = SysExit 1
   \<and> snd (upload_video \<lparr>parent = ''videos'', stem = ''clip'', suffix = ''.mp4''\<rparr> 3145728
      [ChunkException ''connection reset'']) = SysExit 1"
  by (simp add: upload_video_def)

section \<open>Facts about the loop of \<open>main\<close>\<close>

lemma process_video_events:
  "fst (process_video env video)
     = [UploadVideo video (snd (upload_video video (st_size env video) (chunk_answers env video)))]
   \<or> (\<exists>vid sub. snd (upload_video video (st_size env video) (chunk_answers env video)) = Return (Some vid)
         \<and> vid \<noteq> []
         \<and> find_subtitle (exists env) video [''.srt'', ''.vtt''] = Some sub
         \<and> fst (process_video env video)
             = [UploadVideo video (Return (Some vid)),
                CaptionInsert (caption_body vid sub ''zh-TW'')
                  (caption_answer env (caption_body vid sub ''zh-TW''))])"
  by (auto simp: process_video_def Let_def truthy_def split: py_result.splits option.splits)

lemma process_video_no_id:
  "snd (upload_video video (st_size env video) (chunk_answers env video)) = Return None \<Longrightarrow>
   process_video env video = ([UploadVideo video (Return None)], Return ())"
  by (simp add: process_video_def Let_def truthy_def)

lemma main_loop_events:
  "set (fst (main_loop env (video # video_files)))
     \<subseteq> set (fst (process_video env video)) \<union> set (fst (main_loop env video_files))"
  by (auto split: prod.splits py_result.splits)

lemma main_loop_keeps:
  "set (fst (process_video env video)) \<subseteq> set (fst (main_loop env (video # video_files)))"
  by (auto split: prod.splits py_result.splits)

lemma main_loop_later:
  "ev \<in> set (fst (main_loop env video_files)) \<Longrightarrow> snd (process_video env video) = Return u \<Longrightarrow>
   ev \<in> set (fst (main_loop env (video # video_files)))"
  by (cases "process_video env video") (auto split: prod.splits py_result.splits)


lemma main_loop_cases:
  "(\<exists>u. snd (process_video env video) = Return u
        \<and> fst (main_loop env (video # video_files))
            = fst (process_video env video) @ fst (main_loop env video_files)
        \<and> snd (main_loop env (video # video_files)) = snd (main_loop env video_files))
   \<or> (fst (main_loop env (video # video_files)) = fst (process_video env video)
        \<and> snd (main_loop env (video # video_files)) = snd (process_video env video))"
  by (cases "process_video env video") (auto split: prod.splits py_result.splits)

lemma caption_in_process_video:
  assumes "CaptionInsert req answer \<in> set (fst (process_video env video))"
  shows "snd (upload_video video (st_size env video) (chunk_answers env video))
           = Return (Some (snippet_videoId req))
       \<and> snippet_videoId req \<noteq> []
       \<and> UploadVideo video (Return (Some (snippet_videoId req))) \<in> set (fst (process_video env video))"
  using process_video_events [of env video] assms
  by (auto simp: caption_body_def)

lemma caption_in_main_loop:
  "CaptionInsert req answer \<in> set (fst (main_loop env videos)) \<Longrightarrow>
   (\<exists>video \<in> set videos.
      UploadVideo video (Return (Some (snippet_videoId req))) \<in> set (fst (main_loop env videos)))
   \<and> snippet_videoId req \<noteq> []"
proof (induction videos)
  case Nil
  then show ?case by simp
next
  case (Cons video videos)
  from main_loop_cases [of env video videos]
  consider (go) u where "snd (process_video env video) = Return u"
      "fst (main_loop env (video # videos)) = fst (process_video env video) @ fst (main_loop env videos)"
    | (halt) "fst (main_loop env (video # videos)) = fst (process_video env video)"
    by blast
  then show ?case
  proof cases
    case go
    from Cons.prems go(2)
    consider (here) "CaptionInsert req answer \<in> set (fst (process_video env video))"
      | (later) "CaptionInsert req answer \<in> set (fst (main_loop env videos))"
      by auto
    then show ?thesis
    proof cases
      case here
      from caption_in_process_video [OF here] go(2) show ?thesis by auto
    next
      case later
      from Cons.IH [OF later] go(2) show ?thesis by auto
    qed
  next
    case halt
    with Cons.prems have "CaptionInsert req answer \<in> set (fst (process_video env video))" by simp
    from caption_in_process_video [OF this] halt show ?thesis by auto
  qed
qed

section \<open>The claims about captions\<close>

text \<open>
  Claim C4, as amended. A caption request that fails with an \<open>HttpError\<close>, whatever
  its status, is not fatal: \<open>upload_caption\<close> logs the failure and returns, the
  video's upload stays recorded as returned with its id, and \<open>main\<close> goes on with
  the remaining videos.
\<close>

theorem caption_http_error_not_fatal:
  "upload_caption vid caption_path lang (ExecHttpError e)
     = ([''[INFO] Found subtitle: '' @ name caption_path @ ''. Uploading...'',
         ''[ERROR] Failed to upload caption: '' @ content e], Return ())
   \<and> (snd (upload_video video (st_size env video) (chunk_answers env video)) = Return (Some vid)
        \<and> vid \<noteq> []
        \<and> find_subtitle (exists env) video [''.srt'', ''.vtt''] = Some sub
        \<and> caption_answer env (caption_body vid sub ''zh-TW'') = ExecHttpError e \<longrightarrow>
        process_video env video
          = ([UploadVideo video (Return (Some vid)),
              CaptionInsert (caption_body vid sub ''zh-TW'') (ExecHttpError e)], Return ())
        \<and> main_loop env (video # video_files)
          = ([UploadVideo video (Return (Some vid)),
              CaptionInsert (caption_body vid sub ''zh-TW'') (ExecHttpError e)]
             @ fst (main_loop env video_files), snd (main_loop env video_files)))"
proof -
  have a: "upload_caption vid caption_path lang (ExecHttpError e)
     = ([''[INFO] Found subtitle: '' @ name caption_path @ ''. Uploading...'',
         ''[ERROR] Failed to upload caption: '' @ content e], Return ())"
    for caption_path lang
    by (simp add: upload_caption_def Let_def)
  have b: "process_video env video
          = ([UploadVideo video (Return (Some vid)),
              CaptionInsert (caption_body vid sub ''zh-TW'') (ExecHttpError e)], Return ())"
    if "snd (upload_video video (st_size env video) (chunk_answers env video)) = Return (Some vid)"
      "vid \<noteq> []" "find_subtitle (exists env) video [''.srt'', ''.vtt''] = Some sub"
      "caption_answer env (caption_body vid sub ''zh-TW'') = ExecHttpError e"
    using that a [of sub "''zh-TW''"] by (simp add: process_video_def Let_def truthy_def)
  have c: "main_loop env (video # video_files)
          = ([UploadVideo video (Return (Some vid)),
              CaptionInsert (caption_body vid sub ''zh-TW'') (ExecHttpError e)]
             @ fst (main_loop env video_files), snd (main_loop env video_files))"
    if "process_video env video
          = ([UploadVideo video (Return (Some vid)),
              CaptionInsert (caption_body vid sub ''zh-TW'') (ExecHttpError e)], Return ())"
    using that by (simp split: prod.splits)
  from a b c show ?thesis by blast
qed


theorem caption_http_error_not_fatal_witness:
  "snd (upload_video \<lparr>parent = ''videos'', stem = ''clip'', suffix = ''.mp4''\<rparr> 3145728 [Chunk None (Some [''id'' \<mapsto> ''abc''])]) = Return (Some ''abc'')
   \<and> find_subtitle (\<lambda>p. suffix p = ''.srt'') \<lparr>parent = ''videos'', stem = ''clip'', suffix = ''.mp4''\<rparr> [''.srt'', ''.vtt''] = Some \<lparr>parent = ''videos'', stem = ''clip'', suffix = ''.srt''\<rparr>
   \<and> main_loop \<lparr>st_size = (\<lambda>p. 3145728), exists = (\<lambda>p. suffix p = ''.srt''), chunk_answers = (\<lambda>p. [Chunk None (Some [''id'' \<mapsto> ''abc''])]), caption_answer = (\<lambda>r. ExecHttpError \<lparr>resp_status = 400, content = ''invalid caption''\<rparr>)\<rparr> [\<lparr>parent = ''videos'', stem = ''clip'', suffix = ''.mp4''\<rparr>]
       = ([UploadVideo \<lparr>parent = ''videos'', stem = ''clip'', suffix = ''.mp4''\<rparr> (Return (Some ''abc'')),
           CaptionInsert (caption_body ''abc'' \<lparr>parent = ''videos'', stem = ''clip'', suffix = ''.srt''\<rparr> ''zh-TW'') (ExecHttpError \<lparr>resp_status = 400, content = ''invalid caption''\<rparr>)], Return ())"
proof -
  let ?p = "\<lparr>parent = ''videos'', stem = ''clip'', suffix = ''.mp4''\<rparr>"
  let ?sub = "\<lparr>parent = ''videos'', stem = ''clip'', suffix = ''.srt''\<rparr>"
  let ?e = "\<lparr>resp_status = 400, content = ''invalid caption''\<rparr>"
  let ?env = "\<lparr>st_size = (\<lambda>p. 3145728), exists = (\<lambda>p. suffix p = ''.srt''), chunk_answers = (\<lambda>p. [Chunk None (Some [''id'' \<mapsto> ''abc''])]), caption_answer = (\<lambda>r. ExecHttpError \<lparr>resp_status = 400, content = ''invalid caption''\<rparr>)\<rparr>"
  have h1: "snd (upload_video ?p (st_size ?env ?p) (chunk_answers ?env ?p)) = Return (Some ''abc'')"
    by (simp add: upload_video_def upload_start_def Let_def on_status_def)
  have h2: "''abc'' \<noteq> []" by simp
  have h3: "find_subtitle (exists ?env) ?p [''.srt'', ''.vtt''] = Some ?sub"
    by (simp add: with_suffix_def Let_def)
  have h4: "caption_answer ?env (caption_body ''abc'' ?sub ''zh-TW'') = ExecHttpError ?e" by simp
  from caption_http_error_not_fatal [where env = ?env and video = ?p and vid = "''abc''" and sub = ?sub and e = ?e
        and video_files = "[]"] h1 h2 h3 h4
  have "main_loop ?env (?p # [])
       = ([UploadVideo ?p (Return (Some ''abc'')),
           CaptionInsert (caption_body ''abc'' ?sub ''zh-TW'') (ExecHttpError ?e)]
          @ fst (main_loop ?env []), snd (main_loop ?env []))"
    by blast
  then have m: "main_loop ?env [?p]
       = ([UploadVideo ?p (Return (Some ''abc'')),
           CaptionInsert (caption_body ''abc'' ?sub ''zh-TW'') (ExecHttpError ?e)], Return ())"
    by simp
  from h1 h3 m show ?thesis by simp
qed

text \<open>
  The claim as stated fails for an exception that is not an \<open>HttpError\<close>:
  \<open>upload_caption\<close> catches \<open>HttpError\<close> only, so a timeout of the caption request
  escapes from it and from \<open>main\<close>, and the second video of the batch is never
  started.
\<close>

theorem caption_other_exception_escapes:
  "snd (upload_caption ''abc'' \<lparr>parent = ''videos'', stem = ''clip'', suffix = ''.srt''\<rparr> ''zh-TW'' (ExecException ''timed out''))
     = Raise (OtherException ''timed out'')
   \<and> main_loop \<lparr>st_size = (\<lambda>p. 3145728), exists = (\<lambda>p. suffix p = ''.srt''), chunk_answers = (\<lambda>p. [Chunk None (Some [''id'' \<mapsto> ''abc''])]), caption_answer = (\<lambda>r. ExecException ''timed out'')\<rparr> [\<lparr>parent = ''videos'', stem = ''clip'', suffix = ''.mp4''\<rparr>, \<lparr>parent = ''videos'', stem = ''talk'', suffix = ''.mp4''\<rparr>]
       = ([UploadVideo \<lparr>parent = ''videos'', stem = ''clip'', suffix = ''.mp4''\<rparr> (Return (Some ''abc'')),
           CaptionInsert (caption_body ''abc'' \<lparr>parent = ''videos'', stem = ''clip'', suffix = ''.srt''\<rparr> ''zh-TW'') (ExecException ''timed out'')],
          Raise (OtherException ''timed out''))"
  by (simp add: process_video_def upload_video_def upload_start_def tqdm_new_def on_status_def close_def logger_def Let_def truthy_def with_suffix_def caption_body_def upload_caption_def name_def)

text \<open>
  Claim C5. For every video, the first thing \<open>main\<close> does is the video upload. A
  caption request is made only when that upload returned a video id, which is then not
  empty and is the id the request carries; when the upload returns no id, the video's
  events are the upload alone. The same holds over a whole batch: every caption request
  in the run names the id some video of the batch was uploaded under.
\<close>

theorem caption_only_after_video_id:
  "(\<exists>later. fst (process_video env video)
       = UploadVideo video (snd (upload_video video (st_size env video) (chunk_answers env video))) # later)
   \<and> (CaptionInsert req answer \<in> set (fst (process_video env video)) \<longrightarrow>
        snd (upload_video video (st_size env video) (chunk_answers env video))
          = Return (Some (snippet_videoId req))
        \<and> snippet_videoId req \<noteq> [])
   \<and> (snd (upload_video video (st_size env video) (chunk_answers env video)) = Return None \<longrightarrow>
        process_video env video = ([UploadVideo video (Return None)], Return ()))
   \<and> (CaptionInsert req answer \<in> set (fst (main_loop env videos)) \<longrightarrow>
        (\<exists>v \<in> set videos.
           UploadVideo v (Return (Some (snippet_videoId req))) \<in> set (fst (main_loop env videos)))
        \<and> snippet_videoId req \<noteq> [])"
proof -
  have a: "\<exists>later. fst (process_video env video)
       = UploadVideo video (snd (upload_video video (st_size env video) (chunk_answers env video))) # later"
    using process_video_events [of env video] by auto
  from a caption_in_process_video [of req answer env video] process_video_no_id [of video env]
    caption_in_main_loop [of req answer env videos]
  show ?thesis by blast
qed

theorem caption_only_after_video_id_witness:
  "CaptionInsert (caption_body ''abc'' \<lparr>parent = ''videos'', stem = ''clip'', suffix = ''.srt''\<rparr> ''zh-TW'') ExecOk
     \<in> set (fst (process_video \<lparr>st_size = (\<lambda>p. 3145728), exists = (\<lambda>p. suffix p = ''.srt''), chunk_answers = (\<lambda>p. [Chunk None (Some [''id'' \<mapsto> ''abc''])]), caption_answer = (\<lambda>r. ExecOk)\<rparr> \<lparr>parent = ''videos'', stem = ''clip'', suffix = ''.mp4''\<rparr>))
   \<and> snd (upload_video \<lparr>parent = ''videos'', stem = ''clip'', suffix = ''.mp4''\<rparr> 3145728 [Chunk None (Some [''id'' \<mapsto> ''abc''])]) = Return (Some ''abc'')
   \<and> snd (upload_video \<lparr>parent = ''videos'', stem = ''clip'', suffix = ''.mp4''\<rparr> 3145728 [Chunk None (Some Map.empty)]) = Return None
   \<and> process_video \<lparr>st_size = (\<lambda>p. 3145728), exists = (\<lambda>p. suffix p = ''.srt''), chunk_answers = (\<lambda>p. [Chunk None (Some Map.empty)]), caption_answer = (\<lambda>r. ExecOk)\<rparr> \<lparr>parent = ''videos'', stem = ''clip'', suffix = ''.mp4''\<rparr> = ([UploadVideo \<lparr>parent = ''videos'', stem = ''clip'', suffix = ''.mp4''\<rparr> (Return None)], Return ())"
proof -
  let ?p = "\<lparr>parent = ''videos'', stem = ''clip'', suffix = ''.mp4''\<rparr>"
  let ?sub = "\<lparr>parent = ''videos'', stem = ''clip'', suffix = ''.srt''\<rparr>"
  let ?env = "\<lparr>st_size = (\<lambda>p. 3145728), exists = (\<lambda>p. suffix p = ''.srt''), chunk_answers = (\<lambda>p. [Chunk None (Some [''id'' \<mapsto> ''abc''])]), caption_answer = (\<lambda>r. ExecOk)\<rparr>"
  let ?env' = "\<lparr>st_size = (\<lambda>p. 3145728), exists = (\<lambda>p. suffix p = ''.srt''), chunk_answers = (\<lambda>p. [Chunk None (Some Map.empty)]), caption_answer = (\<lambda>r. ExecOk)\<rparr>"
  have h1: "CaptionInsert (caption_body ''abc'' ?sub ''zh-TW'') ExecOk \<in> set (fst (process_video ?env ?p))"
    by (simp add: process_video_def upload_video_def upload_start_def tqdm_new_def on_status_def close_def logger_def Let_def truthy_def with_suffix_def caption_body_def upload_caption_def name_def)
  have h2: "snd (upload_video ?p (st_size ?env' ?p) (chunk_answers ?env' ?p)) = Return None"
    by (simp add: upload_video_def upload_start_def Let_def on_status_def)
  from caption_only_after_video_id [where env = ?env and video = ?p and req = "caption_body ''abc'' ?sub ''zh-TW''"
        and answer = ExecOk] h1
  have a: "snd (upload_video ?p (st_size ?env ?p) (chunk_answers ?env ?p))
          = Return (Some (snippet_videoId (caption_body ''abc'' ?sub ''zh-TW'')))"
    by blast
  from caption_only_after_video_id [where env = ?env' and video = ?p] h2
  have b: "process_video ?env' ?p = ([UploadVideo ?p (Return None)], Return ())"
    by blast
  from h1 h2 a b show ?thesis by (simp add: caption_body_def)
qed

section \<open>Facts about \<open>_authenticate\<close>\<close>

lemma say_fields [simp]:
  "token_files (say m w) = token_files w"
  "client_secrets (say m w) = client_secrets w"
  "refreshes (say m w) = refreshes w"
  "flows (say m w) = flows w"
  "dumps (say m w) = dumps w"
  by (simp_all add: say_def)

lemma load_credentials_fields:
  "fst (load_credentials user_profile w) = token_files w (token_file user_profile)"
  "token_files (snd (load_credentials user_profile w)) = token_files w"
  "client_secrets (snd (load_credentials user_profile w)) = client_secrets w"
  "refreshes (snd (load_credentials user_profile w)) = refreshes w"
  "flows (snd (load_credentials user_profile w)) = flows w"
  "dumps (snd (load_credentials user_profile w)) = dumps w"
  by (simp_all add: load_credentials_def split: option.splits)

lemma save_credentials_fields [simp]:
  "token_files (save_credentials user_profile c w) = (token_files w)(token_file user_profile \<mapsto> c)"
  "client_secrets (save_credentials user_profile c w) = client_secrets w"
  "refreshes (save_credentials user_profile c w) = refreshes w"
  "flows (save_credentials user_profile c w) = flows w"
  "dumps (save_credentials user_profile c w) = dumps w @ [(token_file user_profile, c)]"
  by (simp_all add: save_credentials_def)

text \<open>One call alone takes three steps and does what the function does.\<close>

lemma auth_steps:
  "concurrent idp user_profile [True, True, True] (AtLoad, b, w)
   = (Ended (fst (authenticate idp user_profile w)), b, snd (authenticate idp user_profile w))"
proof -
  obtain creds w1 where L: "load_credentials user_profile w = (creds, w1)"
    by (cases "load_credentials user_profile w")
  have s1: "auth_step idp user_profile AtLoad w = (AtCheck creds, w1)" using L by simp
  show ?thesis
  proof (cases "needs_new creds")
    case False
    have s2: "auth_step idp user_profile (AtCheck creds) w1 = (Ended (Return (the creds)), w1)"
      using False by simp
    have a: "authenticate idp user_profile w = (Return (the creds), w1)"
      using L False by (simp add: authenticate_def)
    show ?thesis by (simp add: s1 s2 a del: auth_step.simps(1,2))
  next
    case True
    obtain x w2 where ob: "obtain_credentials idp user_profile creds w1 = (x, w2)"
      by (cases "obtain_credentials idp user_profile creds w1")
    show ?thesis
    proof (cases x)
      case (Inl ended)
      have s2: "auth_step idp user_profile (AtCheck creds) w1 = (Ended ended, w2)"
        using True ob Inl by simp
      have a: "authenticate idp user_profile w = (ended, w2)"
        using L True ob Inl by (simp add: authenticate_def)
      show ?thesis by (simp add: s1 s2 a del: auth_step.simps(1,2))
    next
      case (Inr c)
      have s2: "auth_step idp user_profile (AtCheck creds) w1 = (AtSave c, w2)"
        using True ob Inr by simp
      have a: "authenticate idp user_profile w = (Return c, save_credentials user_profile c w2)"
        using L True ob Inr by (simp add: authenticate_def)
      show ?thesis by (simp add: s1 s2 a del: auth_step.simps(1,2))
    qed
  qed
qed


lemma auth_steps_second:
  "concurrent idp user_profile [False, False, False] (a, AtLoad, w)
   = (a, Ended (fst (authenticate idp user_profile w)), snd (authenticate idp user_profile w))"
proof -
  obtain creds w1 where L: "load_credentials user_profile w = (creds, w1)"
    by (cases "load_credentials user_profile w")
  have s1: "auth_step idp user_profile AtLoad w = (AtCheck creds, w1)" using L by simp
  show ?thesis
  proof (cases "needs_new creds")
    case False
    have s2: "auth_step idp user_profile (AtCheck creds) w1 = (Ended (Return (the creds)), w1)"
      using False by simp
    have a: "authenticate idp user_profile w = (Return (the creds), w1)"
      using L False by (simp add: authenticate_def)
    show ?thesis by (simp add: s1 s2 a del: auth_step.simps(1,2))
  next
    case True
    obtain x w2 where ob: "obtain_credentials idp user_profile creds w1 = (x, w2)"
      by (cases "obtain_credentials idp user_profile creds w1")
    show ?thesis
    proof (cases x)
      case (Inl ended)
      have s2: "auth_step idp user_profile (AtCheck creds) w1 = (Ended ended, w2)"
        using True ob Inl by simp
      have a: "authenticate idp user_profile w = (ended, w2)"
        using L True ob Inl by (simp add: authenticate_def)
      show ?thesis by (simp add: s1 s2 a del: auth_step.simps(1,2))
    next
      case (Inr c)
      have s2: "auth_step idp user_profile (AtCheck creds) w1 = (AtSave c, w2)"
        using True ob Inr by simp
      have a: "authenticate idp user_profile w = (Return c, save_credentials user_profile c w2)"
        using L True ob Inr by (simp add: authenticate_def)
      show ?thesis by (simp add: s1 s2 a del: auth_step.simps(1,2))
    qed
  qed
qed

lemma concurrent_append:
  "concurrent idp user_profile (s1 @ s2) st
   = concurrent idp user_profile s2 (concurrent idp user_profile s1 st)"
proof (induction s1 arbitrary: st)
  case Nil
  then show ?case by simp
next
  case (Cons x s1)
  obtain a b w where st: "st = (a, b, w)" by (cases st)
  show ?case
  proof (cases x)
    case True
    with st Cons.IH show ?thesis by (simp add: Let_def split: prod.splits del: auth_step.simps)
  next
    case False
    with st Cons.IH show ?thesis by (simp add: Let_def split: prod.splits del: auth_step.simps)
  qed
qed

lemma one_after_the_other:
  "concurrent idp user_profile [True, True, True, False, False, False] (AtLoad, AtLoad, w)
   = (Ended (fst (authenticate idp user_profile w)),
      Ended (fst (authenticate idp user_profile (snd (authenticate idp user_profile w)))),
      snd (authenticate idp user_profile (snd (authenticate idp user_profile w))))"
proof -
  have "concurrent idp user_profile ([True, True, True] @ [False, False, False]) (AtLoad, AtLoad, w)
      = concurrent idp user_profile [False, False, False]
          (concurrent idp user_profile [True, True, True] (AtLoad, AtLoad, w))"
    by (rule concurrent_append)
  also have "\<dots> = concurrent idp user_profile [False, False, False]
          (Ended (fst (authenticate idp user_profile w)), AtLoad, snd (authenticate idp user_profile w))"
    by (simp only: auth_steps)
  also have "\<dots> = (Ended (fst (authenticate idp user_profile w)),
      Ended (fst (authenticate idp user_profile (snd (authenticate idp user_profile w)))),
      snd (authenticate idp user_profile (snd (authenticate idp user_profile w))))"
    by (simp only: auth_steps_second)
  finally show ?thesis by simp
qed

lemma authenticate_valid:
  assumes "token_files w (token_file user_profile) = Some c" and "valid c"
  shows "authenticate idp user_profile w
         = (Return c, say (''[INFO] Loading credentials for user: '' @ user_profile) w)"
  using assms by (simp add: authenticate_def load_credentials_def needs_new_def)

lemma authenticate_refresh:
  assumes "token_files w (token_file user_profile) = Some c" and "\<not> valid c"
    and "expired c" and "truthy (refresh_token c)"
  shows "authenticate idp user_profile w
         = (let w1 = (say ''[INFO] Refreshing expired token...''
                        (say (''[INFO] Loading credentials for user: '' @ user_profile) w))
                     \<lparr>refreshes := refreshes w @ [c]\<rparr>
            in case refresh_answer idp c of
                 None \<Rightarrow> (Raise RefreshError, w1)
               | Some c' \<Rightarrow> (Return c', save_credentials user_profile c' w1))"
  using assms
  by (simp add: authenticate_def load_credentials_def needs_new_def obtain_credentials_def
      refreshable_def Let_def split: option.splits)

lemma authenticate_login:
  assumes "needs_new (token_files w (token_file user_profile))"
    and "\<not> refreshable (token_files w (token_file user_profile))"
  shows "authenticate idp user_profile w
         = (let w1 = say (''[INFO] No valid token found for '' @ [CHR 0x27] @ user_profile
                        @ [CHR 0x27] @ ''. Starting login flow...'')
                       (snd (load_credentials user_profile w))
            in if \<not> client_secrets w then (SysExit 1, say MISSING_CLIENT_SECRETS_MESSAGE w1)
               else (case consent_answer idp of
                       Inl msg \<Rightarrow> (Raise (OtherException msg), w1\<lparr>flows := flows w + 1\<rparr>)
                     | Inr c \<Rightarrow>
                         (Return c, save_credentials user_profile c (w1\<lparr>flows := flows w + 1\<rparr>))))"
  using assms
  by (cases "load_credentials user_profile w")
     (auto simp: authenticate_def load_credentials_def obtain_credentials_def Let_def
        split: option.splits sum.splits)

lemma out_say [simp]: "out (say m w) = out w @ [m]"
  by (simp add: say_def)

section \<open>The claims about credentials\<close>

text \<open>
  Claim C6. When the profile's token file holds a credential that is valid, the call
  returns that credential as it is: no refresh is requested, no consent flow is run and
  nothing is written, so the token files are what they were.
\<close>

theorem valid_credentials_returned_unchanged:
  assumes "token_files w (token_file user_profile) = Some c" and "valid c"
  shows "fst (authenticate idp user_profile w) = Return c
       \<and> token_files (snd (authenticate idp user_profile w)) = token_files w
       \<and> refreshes (snd (authenticate idp user_profile w)) = refreshes w
       \<and> flows (snd (authenticate idp user_profile w)) = flows w
       \<and> dumps (snd (authenticate idp user_profile w)) = dumps w"
  by (simp add: authenticate_valid [OF assms])

theorem valid_credentials_returned_unchanged_witness:
  "token_files \<lparr>token_files = [''token_default.pickle'' \<mapsto> \<lparr>token = ''new'', valid = True, expired = False, refresh_token = Some ''r1''\<rparr>], client_secrets = True, refreshes = [], flows = 0, dumps = [], out = []\<rparr> (token_file ''default'') = Some \<lparr>token = ''new'', valid = True, expired = False, refresh_token = Some ''r1''\<rparr>
   \<and> valid \<lparr>token = ''new'', valid = True, expired = False, refresh_token = Some ''r1''\<rparr>
   \<and> fst (authenticate \<lparr>refresh_answer = (\<lambda>c. Some (c\<lparr>token := ''new'', valid := True, expired := False\<rparr>)), consent_answer = Inr \<lparr>token = ''fresh'', valid = True, expired = False, refresh_token = Some ''r2''\<rparr>\<rparr> ''default'' \<lparr>token_files = [''token_default.pickle'' \<mapsto> \<lparr>token = ''new'', valid = True, expired = False, refresh_token = Some ''r1''\<rparr>], client_secrets = True, refreshes = [], flows = 0, dumps = [], out = []\<rparr>) = Return \<lparr>token = ''new'', valid = True, expired = False, refresh_token = Some ''r1''\<rparr>
   \<and> refreshes (snd (authenticate \<lparr>refresh_answer = (\<lambda>c. Some (c\<lparr>token := ''new'', valid := True, expired := False\<rparr>)), consent_answer = Inr \<lparr>token = ''fresh'', valid = True, expired = False, refresh_token = Some ''r2''\<rparr>\<rparr> ''default'' \<lparr>token_files = [''token_default.pickle'' \<mapsto> \<lparr>token = ''new'', valid = True, expired = False, refresh_token = Some ''r1''\<rparr>], client_secrets = True, refreshes = [], flows = 0, dumps = [], out = []\<rparr>)) = []
   \<and> dumps (snd (authenticate \<lparr>refresh_answer = (\<lambda>c. Some (c\<lparr>token := ''new'', valid := True, expired := False\<rparr>)), consent_answer = Inr \<lparr>token = ''fresh'', valid = True, expired = False, refresh_token = Some ''r2''\<rparr>\<rparr> ''default'' \<lparr>token_files = [''token_default.pickle'' \<mapsto> \<lparr>token = ''new'', valid = True, expired = False, refresh_token = Some ''r1''\<rparr>], client_secrets = True, refreshes = [], flows = 0, dumps = [], out = []\<rparr>)) = []"
proof -
  let ?w = "\<lparr>token_files = [''token_default.pickle'' \<mapsto> \<lparr>token = ''new'', valid = True, expired = False, refresh_token = Some ''r1''\<rparr>], client_secrets = True, refreshes = [], flows = 0, dumps = [], out = []\<rparr>"
  let ?c = "\<lparr>token = ''new'', valid = True, expired = False, refresh_token = Some ''r1''\<rparr>"
  have h1: "token_files ?w (token_file ''default'') = Some ?c" by (simp add: token_file_def)
  have h2: "valid ?c" by simp
  from valid_credentials_returned_unchanged [OF h1 h2, of "\<lparr>refresh_answer = (\<lambda>c. Some (c\<lparr>token := ''new'', valid := True, expired := False\<rparr>)), consent_answer = Inr \<lparr>token = ''fresh'', valid = True, expired = False, refresh_token = Some ''r2''\<rparr>\<rparr>"] h1 h2
  show ?thesis by simp
qed

text \<open>
  Claim C7, as amended. When the profile's token file holds a credential that is not
  valid, is expired and has a refresh token, the call requests exactly one refresh and
  runs no consent flow. When the refresh succeeds, the refreshed credential is written
  to the profile's token file and returned; when it fails, \<open>RefreshError\<close> escapes and
  nothing is written. Of two calls made one after the other, the second finds the
  refreshed credential (when it is valid) and requests no refresh: one refresh in all.
\<close>

theorem expired_credentials_refreshed_once:
  assumes "token_files w (token_file user_profile) = Some c" and "\<not> valid c"
    and "expired c" and "truthy (refresh_token c)"
  shows "refreshes (snd (authenticate idp user_profile w)) = refreshes w @ [c]
       \<and> flows (snd (authenticate idp user_profile w)) = flows w
       \<and> (refresh_answer idp c = Some c' \<longrightarrow>
            fst (authenticate idp user_profile w) = Return c'
            \<and> token_files (snd (authenticate idp user_profile w)) (token_file user_profile) = Some c'
            \<and> dumps (snd (authenticate idp user_profile w)) = dumps w @ [(token_file user_profile, c')])
       \<and> (refresh_answer idp c = None \<longrightarrow>
            fst (authenticate idp user_profile w) = Raise RefreshError
            \<and> token_files (snd (authenticate idp user_profile w)) = token_files w
            \<and> dumps (snd (authenticate idp user_profile w)) = dumps w)
       \<and> (refresh_answer idp c = Some c' \<and> valid c' \<longrightarrow>
            fst (concurrent idp user_profile [True, True, True, False, False, False] (AtLoad, AtLoad, w))
              = Ended (Return c')
            \<and> fst (snd (concurrent idp user_profile [True, True, True, False, False, False] (AtLoad, AtLoad, w)))
              = Ended (Return c')
            \<and> refreshes (snd (snd (concurrent idp user_profile [True, True, True, False, False, False]
                 (AtLoad, AtLoad, w)))) = refreshes w @ [c])"
proof -
  note r = authenticate_refresh [OF assms, of idp]
  have a: "refreshes (snd (authenticate idp user_profile w)) = refreshes w @ [c]"
    by (simp add: r Let_def split: option.splits)
  have b: "flows (snd (authenticate idp user_profile w)) = flows w"
    by (simp add: r Let_def split: option.splits)
  have c: "fst (authenticate idp user_profile w) = Return c'
            \<and> token_files (snd (authenticate idp user_profile w)) (token_file user_profile) = Some c'
            \<and> dumps (snd (authenticate idp user_profile w)) = dumps w @ [(token_file user_profile, c')]"
    if "refresh_answer idp c = Some c'" for c'
    using that by (simp add: r Let_def)
  have d: "fst (authenticate idp user_profile w) = Raise RefreshError
            \<and> token_files (snd (authenticate idp user_profile w)) = token_files w
            \<and> dumps (snd (authenticate idp user_profile w)) = dumps w"
    if "refresh_answer idp c = None"
    using that by (simp add: r Let_def)
  have e: "fst (concurrent idp user_profile [True, True, True, False, False, False] (AtLoad, AtLoad, w))
              = Ended (Return c')
            \<and> fst (snd (concurrent idp user_profile [True, True, True, False, False, False] (AtLoad, AtLoad, w)))
              = Ended (Return c')
            \<and> refreshes (snd (snd (concurrent idp user_profile [True, True, True, False, False, False]
                 (AtLoad, AtLoad, w)))) = refreshes w @ [c]"
    if "refresh_answer idp c = Some c'" and "valid c'"
  proof -
    let ?w1 = "snd (authenticate idp user_profile w)"
    from c [OF that(1)] have f: "token_files ?w1 (token_file user_profile) = Some c'" by simp
    from authenticate_valid [OF f that(2), of idp]
    have g: "authenticate idp user_profile ?w1
         = (Return c', say (''[INFO] Loading credentials for user: '' @ user_profile) ?w1)" .
    show ?thesis
      unfolding one_after_the_other using c [OF that(1)] a g by simp
  qed
  from a b c d e show ?thesis by blast
qed

theorem expired_credentials_refreshed_once_witness:
  "token_files \<lparr>token_files = [''token_default.pickle'' \<mapsto> \<lparr>token = ''old'', valid = False, expired = True, refresh_token = Some ''r1''\<rparr>], client_secrets = True, refreshes = [], flows = 0, dumps = [], out = []\<rparr> (token_file ''default'') = Some \<lparr>token = ''old'', valid = False, expired = True, refresh_token = Some ''r1''\<rparr>
   \<and> truthy (refresh_token \<lparr>token = ''old'', valid = False, expired = True, refresh_token = Some ''r1''\<rparr>)
   \<and> fst (authenticate \<lparr>refresh_answer = (\<lambda>c. Some (c\<lparr>token := ''new'', valid := True, expired := False\<rparr>)), consent_answer = Inr \<lparr>token = ''fresh'', valid = True, expired = False, refresh_token = Some ''r2''\<rparr>\<rparr> ''default'' \<lparr>token_files = [''token_default.pickle'' \<mapsto> \<lparr>token = ''old'', valid = False, expired = True, refresh_token = Some ''r1''\<rparr>], client_secrets = True, refreshes = [], flows = 0, dumps = [], out = []\<rparr>) = Return \<lparr>token = ''new'', valid = True, expired = False, refresh_token = Some ''r1''\<rparr>
   \<and> refreshes (snd (authenticate \<lparr>refresh_answer = (\<lambda>c. Some (c\<lparr>token := ''new'', valid := True, expired := False\<rparr>)), consent_answer = Inr \<lparr>token = ''fresh'', valid = True, expired = False, refresh_token = Some ''r2''\<rparr>\<rparr> ''default'' \<lparr>token_files = [''token_default.pickle'' \<mapsto> \<lparr>token = ''old'', valid = False, expired = True, refresh_token = Some ''r1''\<rparr>], client_secrets = True, refreshes = [], flows = 0, dumps = [], out = []\<rparr>)) = [\<lparr>token = ''old'', valid = False, expired = True, refresh_token = Some ''r1''\<rparr>]
   \<and> dumps (snd (authenticate \<lparr>refresh_answer = (\<lambda>c. Some (c\<lparr>token := ''new'', valid := True, expired := False\<rparr>)), consent_answer = Inr \<lparr>token = ''fresh'', valid = True, expired = False, refresh_token = Some ''r2''\<rparr>\<rparr> ''default'' \<lparr>token_files = [''token_default.pickle'' \<mapsto> \<lparr>token = ''old'', valid = False, expired = True, refresh_token = Some ''r1''\<rparr>], client_secrets = True, refreshes = [], flows = 0, dumps = [], out = []\<rparr>)) = [(''token_default.pickle'', \<lparr>token = ''new'', valid = True, expired = False, refresh_token = Some ''r1''\<rparr>)]
   \<and> refreshes (snd (snd (concurrent \<lparr>refresh_answer = (\<lambda>c. Some (c\<lparr>token := ''new'', valid := True, expired := False\<rparr>)), consent_answer = Inr \<lparr>token = ''fresh'', valid = True, expired = False, refresh_token = Some ''r2''\<rparr>\<rparr> ''default'' [True, True, True, False, False, False]
        (AtLoad, AtLoad, \<lparr>token_files = [''token_default.pickle'' \<mapsto> \<lparr>token = ''old'', valid = False, expired = True, refresh_token = Some ''r1''\<rparr>], client_secrets = True, refreshes = [], flows = 0, dumps = [], out = []\<rparr>)))) = [\<lparr>token = ''old'', valid = False, expired = True, refresh_token = Some ''r1''\<rparr>]"
proof -
  let ?w = "\<lparr>token_files = [''token_default.pickle'' \<mapsto> \<lparr>token = ''old'', valid = False, expired = True, refresh_token = Some ''r1''\<rparr>], client_secrets = True, refreshes = [], flows = 0, dumps = [], out = []\<rparr>"
  let ?c = "\<lparr>token = ''old'', valid = False, expired = True, refresh_token = Some ''r1''\<rparr>"
  let ?c' = "\<lparr>token = ''new'', valid = True, expired = False, refresh_token = Some ''r1''\<rparr>"
  let ?idp = "\<lparr>refresh_answer = (\<lambda>c. Some (c\<lparr>token := ''new'', valid := True, expired := False\<rparr>)), consent_answer = Inr \<lparr>token = ''fresh'', valid = True, expired = False, refresh_token = Some ''r2''\<rparr>\<rparr>"
  have h1: "token_files ?w (token_file ''default'') = Some ?c" by (simp add: token_file_def)
  have h2: "\<not> valid ?c" by simp
  have h3: "expired ?c" by simp
  have h4: "truthy (refresh_token ?c)" by (simp add: truthy_def)
  have h5: "refresh_answer ?idp ?c = Some ?c'" by simp
  have h6: "valid ?c'" by simp
  have t: "token_file ''default'' = ''token_default.pickle''" by (simp add: token_file_def)
  from expired_credentials_refreshed_once [OF h1 h2 h3 h4, of ?idp ?c'] h5 h6
  have "fst (authenticate ?idp ''default'' ?w) = Return ?c'
      \<and> refreshes (snd (authenticate ?idp ''default'' ?w)) = refreshes ?w @ [?c]
      \<and> dumps (snd (authenticate ?idp ''default'' ?w)) = dumps ?w @ [(token_file ''default'', ?c')]
      \<and> refreshes (snd (snd (concurrent ?idp ''default'' [True, True, True, False, False, False]
           (AtLoad, AtLoad, ?w)))) = refreshes ?w @ [?c]"
    by blast
  with h1 h4 t show ?thesis by simp
qed

text \<open>
  The claim as stated fails for calls that overlap: the function takes no lock. When
  both calls read the token file before either writes it, each requests a refresh.
\<close>

theorem interleaved_calls_refresh_twice:
  "refreshes (snd (snd (concurrent \<lparr>refresh_answer = (\<lambda>c. Some (c\<lparr>token := ''new'', valid := True, expired := False\<rparr>)), consent_answer = Inr \<lparr>token = ''fresh'', valid = True, expired = False, refresh_token = Some ''r2''\<rparr>\<rparr> ''default'' [True, False, True, False, True, False]
        (AtLoad, AtLoad, \<lparr>token_files = [''token_default.pickle'' \<mapsto> \<lparr>token = ''old'', valid = False, expired = True, refresh_token = Some ''r1''\<rparr>], client_secrets = True, refreshes = [], flows = 0, dumps = [], out = []\<rparr>)))) = [\<lparr>token = ''old'', valid = False, expired = True, refresh_token = Some ''r1''\<rparr>, \<lparr>token = ''old'', valid = False, expired = True, refresh_token = Some ''r1''\<rparr>]"
  by (simp add: load_credentials_def token_file_def needs_new_def obtain_credentials_def
      refreshable_def truthy_def save_credentials_def say_def Let_def)

text \<open>
  Claim C8, as amended. When the profile has no token file, or its credential is
  neither valid nor expired with a refresh token, the call signals nothing like an
  interaction-required error: provided \<open>client_secrets.json\<close> exists it starts the
  consent flow itself. When the flow yields a credential, the call writes it to the
  profile's token file and returns it; when the flow raises, that exception escapes to
  the caller and nothing is written. Without \<open>client_secrets.json\<close> the call prints the
  missing-secrets message and ends the process with exit status 1, starting no flow and
  writing nothing. In none of these cases is a refresh requested. A credential that is
  expired with a refresh token is refreshed instead, and a refresh that fails lets
  \<open>RefreshError\<close> escape to the caller, with no flow started and nothing written.
\<close>

theorem missing_credentials_start_login_flow:
  "(needs_new (token_files w (token_file user_profile))
      \<and> \<not> refreshable (token_files w (token_file user_profile)) \<and> client_secrets w
      \<and> consent_answer idp = Inr c \<longrightarrow>
      fst (authenticate idp user_profile w) = Return c
      \<and> flows (snd (authenticate idp user_profile w)) = flows w + 1
      \<and> refreshes (snd (authenticate idp user_profile w)) = refreshes w
      \<and> token_files (snd (authenticate idp user_profile w))
          = (token_files w)(token_file user_profile \<mapsto> c)
      \<and> dumps (snd (authenticate idp user_profile w)) = dumps w @ [(token_file user_profile, c)])
   \<and> (needs_new (token_files w (token_file user_profile))
      \<and> \<not> refreshable (token_files w (token_file user_profile)) \<and> client_secrets w
      \<and> consent_answer idp = Inl msg \<longrightarrow>
      fst (authenticate idp user_profile w) = Raise (OtherException msg)
      \<and> flows (snd (authenticate idp user_profile w)) = flows w + 1
      \<and> refreshes (snd (authenticate idp user_profile w)) = refreshes w
      \<and> token_files (snd (authenticate idp user_profile w)) = token_files w
      \<and> dumps (snd (authenticate idp user_profile w)) = dumps w)
   \<and> (needs_new (token_files w (token_file user_profile))
      \<and> \<not> refreshable (token_files w (token_file user_profile)) \<and> \<not> client_secrets w \<longrightarrow>
      fst (authenticate idp user_profile w) = SysExit 1
      \<and> out (snd (authenticate idp user_profile w))
          = out (snd (load_credentials user_profile w))
            @ [''[INFO] No valid token found for '' @ [CHR 0x27] @ user_profile
                 @ [CHR 0x27] @ ''. Starting login flow...'',
               MISSING_CLIENT_SECRETS_MESSAGE]
      \<and> flows (snd (authenticate idp user_profile w)) = flows w
      \<and> refreshes (snd (authenticate idp user_profile w)) = refreshes w
      \<and> token_files (snd (authenticate idp user_profile w)) = token_files w
      \<and> dumps (snd (authenticate idp user_profile w)) = dumps w)
   \<and> (token_files w (token_file user_profile) = Some c0 \<and> \<not> valid c0 \<and> expired c0
      \<and> truthy (refresh_token c0) \<and> refresh_answer idp c0 = None \<longrightarrow>
      fst (authenticate idp user_profile w) = Raise RefreshError
      \<and> refreshes (snd (authenticate idp user_profile w)) = refreshes w @ [c0]
      \<and> flows (snd (authenticate idp user_profile w)) = flows w
      \<and> token_files (snd (authenticate idp user_profile w)) = token_files w
      \<and> dumps (snd (authenticate idp user_profile w)) = dumps w)"
proof -
  have a: "fst (authenticate idp user_profile w) = Return c
      \<and> flows (snd (authenticate idp user_profile w)) = flows w + 1
      \<and> refreshes (snd (authenticate idp user_profile w)) = refreshes w
      \<and> token_files (snd (authenticate idp user_profile w))
          = (token_files w)(token_file user_profile \<mapsto> c)
      \<and> dumps (snd (authenticate idp user_profile w)) = dumps w @ [(token_file user_profile, c)]"
    if "needs_new (token_files w (token_file user_profile))"
      "\<not> refreshable (token_files w (token_file user_profile))" "client_secrets w"
      "consent_answer idp = Inr c"
    using that(3,4) by (simp add: authenticate_login [OF that(1,2)] Let_def load_credentials_fields)
  have a': "fst (authenticate idp user_profile w) = Raise (OtherException msg)
      \<and> flows (snd (authenticate idp user_profile w)) = flows w + 1
      \<and> refreshes (snd (authenticate idp user_profile w)) = refreshes w
      \<and> token_files (snd (authenticate idp user_profile w)) = token_files w
      \<and> dumps (snd (authenticate idp user_profile w)) = dumps w"
    if "needs_new (token_files w (token_file user_profile))"
      "\<not> refreshable (token_files w (token_file user_profile))" "client_secrets w"
      "consent_answer idp = Inl msg"
    using that(3,4) by (simp add: authenticate_login [OF that(1,2)] Let_def load_credentials_fields)
  have b: "fst (authenticate idp user_profile w) = SysExit 1
      \<and> out (snd (authenticate idp user_profile w))
          = out (snd (load_credentials user_profile w))
            @ [''[INFO] No valid token found for '' @ [CHR 0x27] @ user_profile
                 @ [CHR 0x27] @ ''. Starting login flow...'',
               MISSING_CLIENT_SECRETS_MESSAGE]
      \<and> flows (snd (authenticate idp user_profile w)) = flows w
      \<and> refreshes (snd (authenticate idp user_profile w)) = refreshes w
      \<and> token_files (snd (authenticate idp user_profile w)) = token_files w
      \<and> dumps (snd (authenticate idp user_profile w)) = dumps w"
    if "needs_new (token_files w (token_file user_profile))"
      "\<not> refreshable (token_files w (token_file user_profile))" "\<not> client_secrets w"
    using that(3) by (simp add: authenticate_login [OF that(1,2)] Let_def load_credentials_fields)
  have c: "fst (authenticate idp user_profile w) = Raise RefreshError
      \<and> refreshes (snd (authenticate idp user_profile w)) = refreshes w @ [c0]
      \<and> flows (snd (authenticate idp user_profile w)) = flows w
      \<and> token_files (snd (authenticate idp user_profile w)) = token_files w
      \<and> dumps (snd (authenticate idp user_profile w)) = dumps w"
    if "token_files w (token_file user_profile) = Some c0" "\<not> valid c0" "expired c0"
      "truthy (refresh_token c0)" "refresh_answer idp c0 = None"
    using that(5) by (simp add: authenticate_refresh [OF that(1-4)] Let_def)
  from a a' b c show ?thesis by blast
qed

theorem missing_credentials_start_login_flow_witness:
  "needs_new (token_files \<lparr>token_files = Map.empty, client_secrets = True, refreshes = [], flows = 0, dumps = [], out = []\<rparr> (token_file ''default''))
   \<and> fst (authenticate \<lparr>refresh_answer = (\<lambda>c. Some (c\<lparr>token := ''new'', valid := True, expired := False\<rparr>)), consent_answer = Inr \<lparr>token = ''fresh'', valid = True, expired = False, refresh_token = Some ''r2''\<rparr>\<rparr> ''default'' \<lparr>token_files = Map.empty, client_secrets = True, refreshes = [], flows = 0, dumps = [], out = []\<rparr>) = Return \<lparr>token = ''fresh'', valid = True, expired = False, refresh_token = Some ''r2''\<rparr>
   \<and> flows (snd (authenticate \<lparr>refresh_answer = (\<lambda>c. Some (c\<lparr>token := ''new'', valid := True, expired := False\<rparr>)), consent_answer = Inr \<lparr>token = ''fresh'', valid = True, expired = False, refresh_token = Some ''r2''\<rparr>\<rparr> ''default'' \<lparr>token_files = Map.empty, client_secrets = True, refreshes = [], flows = 0, dumps = [], out = []\<rparr>)) = 1
   \<and> dumps (snd (authenticate \<lparr>refresh_answer = (\<lambda>c. Some (c\<lparr>token := ''new'', valid := True, expired := False\<rparr>)), consent_answer = Inr \<lparr>token = ''fresh'', valid = True, expired = False, refresh_token = Some ''r2''\<rparr>\<rparr> ''default'' \<lparr>token_files = Map.empty, client_secrets = True, refreshes = [], flows = 0, dumps = [], out = []\<rparr>)) = [(''token_default.pickle'', \<lparr>token = ''fresh'', valid = True, expired = False, refresh_token = Some ''r2''\<rparr>)]
   \<and> fst (authenticate \<lparr>refresh_answer = (\<lambda>c. Some (c\<lparr>token := ''new'', valid := True, expired := False\<rparr>)), consent_answer = Inl ''access_denied''\<rparr> ''default'' \<lparr>token_files = Map.empty, client_secrets = True, refreshes = [], flows = 0, dumps = [], out = []\<rparr>) = Raise (OtherException ''access_denied'')
   \<and> dumps (snd (authenticate \<lparr>refresh_answer = (\<lambda>c. Some (c\<lparr>token := ''new'', valid := True, expired := False\<rparr>)), consent_answer = Inl ''access_denied''\<rparr> ''default'' \<lparr>token_files = Map.empty, client_secrets = True, refreshes = [], flows = 0, dumps = [], out = []\<rparr>)) = []
   \<and> fst (authenticate \<lparr>refresh_answer = (\<lambda>c. Some (c\<lparr>token := ''new'', valid := True, expired := False\<rparr>)), consent_answer = Inr \<lparr>token = ''fresh'', valid = True, expired = False, refresh_token = Some ''r2''\<rparr>\<rparr> ''default'' \<lparr>token_files = Map.empty, client_secrets = False, refreshes = [], flows = 0, dumps = [], out = []\<rparr>) = SysExit 1
   \<and> last (out (snd (authenticate \<lparr>refresh_answer = (\<lambda>c. Some (c\<lparr>token := ''new'', valid := True, expired := False\<rparr>)), consent_answer = Inr \<lparr>token = ''fresh'', valid = True, expired = False, refresh_token = Some ''r2''\<rparr>\<rparr> ''default'' \<lparr>token_files = Map.empty, client_secrets = False, refreshes = [], flows = 0, dumps = [], out = []\<rparr>))) = MISSING_CLIENT_SECRETS_MESSAGE
   \<and> flows (snd (authenticate \<lparr>refresh_answer = (\<lambda>c. Some (c\<lparr>token := ''new'', valid := True, expired := False\<rparr>)), consent_answer = Inr \<lparr>token = ''fresh'', valid = True, expired = False, refresh_token = Some ''r2''\<rparr>\<rparr> ''default'' \<lparr>token_files = Map.empty, client_secrets = False, refreshes = [], flows = 0, dumps = [], out = []\<rparr>)) = 0"
proof -
  let ?w = "\<lparr>token_files = Map.empty, client_secrets = True, refreshes = [], flows = 0, dumps = [], out = []\<rparr>"
  let ?v = "\<lparr>token_files = Map.empty, client_secrets = False, refreshes = [], flows = 0, dumps = [], out = []\<rparr>"
  let ?idp = "\<lparr>refresh_answer = (\<lambda>c. Some (c\<lparr>token := ''new'', valid := True, expired := False\<rparr>)), consent_answer = Inr \<lparr>token = ''fresh'', valid = True, expired = False, refresh_token = Some ''r2''\<rparr>\<rparr>"
  let ?bad = "\<lparr>refresh_answer = (\<lambda>c. Some (c\<lparr>token := ''new'', valid := True, expired := False\<rparr>)), consent_answer = Inl ''access_denied''\<rparr>"
  let ?c = "\<lparr>token = ''fresh'', valid = True, expired = False, refresh_token = Some ''r2''\<rparr>"
  have h1: "needs_new (token_files ?w (token_file ''default''))" by (simp add: needs_new_def)
  have h2: "\<not> refreshable (token_files ?w (token_file ''default''))" by (simp add: refreshable_def)
  have h3: "client_secrets ?w" by simp
  have h4: "consent_answer ?idp = Inr ?c" by simp
  have h5: "consent_answer ?bad = Inl ''access_denied''" by simp
  have k1: "needs_new (token_files ?v (token_file ''default''))" by (simp add: needs_new_def)
  have k2: "\<not> refreshable (token_files ?v (token_file ''default''))" by (simp add: refreshable_def)
  have k3: "\<not> client_secrets ?v" by simp
  have t: "token_file ''default'' = ''token_default.pickle''" by (simp add: token_file_def)
  from missing_credentials_start_login_flow [of ?w "''default''" ?idp ?c] h1 h2 h3 h4
  have a: "fst (authenticate ?idp ''default'' ?w) = Return ?c
      \<and> flows (snd (authenticate ?idp ''default'' ?w)) = flows ?w + 1
      \<and> dumps (snd (authenticate ?idp ''default'' ?w)) = dumps ?w @ [(token_file ''default'', ?c)]"
    by blast
  from missing_credentials_start_login_flow [of ?w "''default''" ?bad _ "''access_denied''"] h1 h2 h3 h5
  have a': "fst (authenticate ?bad ''default'' ?w) = Raise (OtherException ''access_denied'')
      \<and> dumps (snd (authenticate ?bad ''default'' ?w)) = dumps ?w"
    by blast
  from missing_credentials_start_login_flow [of ?v "''default''" ?idp] k1 k2 k3
  have b: "fst (authenticate ?idp ''default'' ?v) = SysExit 1
      \<and> out (snd (authenticate ?idp ''default'' ?v))
          = out (snd (load_credentials ''default'' ?v))
            @ [''[INFO] No valid token found for '' @ [CHR 0x27] @ ''default''
                 @ [CHR 0x27] @ ''. Starting login flow...'',
               MISSING_CLIENT_SECRETS_MESSAGE]
      \<and> flows (snd (authenticate ?idp ''default'' ?v)) = flows ?v"
    by blast
  from b have b': "last (out (snd (authenticate ?idp ''default'' ?v))) = MISSING_CLIENT_SECRETS_MESSAGE"
    by simp
  from h1 a a' b b' t show ?thesis by simp
qed

text \<open>
  The claim as stated fails: with no token file and \<open>client_secrets.json\<close> present,
  the call signals nothing to its caller; it runs the consent flow and returns the new
  credential.
\<close>

theorem login_flow_run_by_authenticate:
  "fst (authenticate \<lparr>refresh_answer = (\<lambda>c. Some (c\<lparr>token := ''new'', valid := True, expired := False\<rparr>)), consent_answer = Inr \<lparr>token = ''fresh'', valid = True, expired = False, refresh_token = Some ''r2''\<rparr>\<rparr> ''default'' \<lparr>token_files = Map.empty, client_secrets = True, refreshes = [], flows = 0, dumps = [], out = []\<rparr>) = Return \<lparr>token = ''fresh'', valid = True, expired = False, refresh_token = Some ''r2''\<rparr>
   \<and> flows (snd (authenticate \<lparr>refresh_answer = (\<lambda>c. Some (c\<lparr>token := ''new'', valid := True, expired := False\<rparr>)), consent_answer = Inr \<lparr>token = ''fresh'', valid = True, expired = False, refresh_token = Some ''r2''\<rparr>\<rparr> ''default'' \<lparr>token_files = Map.empty, client_secrets = True, refreshes = [], flows = 0, dumps = [], out = []\<rparr>)) = 1"
  by (simp add: authenticate_def load_credentials_def token_file_def needs_new_def
      obtain_credentials_def refreshable_def save_credentials_def say_def Let_def)

section \<open>Facts about the client service\<close>

lemma poll_run_stopped:
  "(completed job \<or> truthy (error job)) \<Longrightarrow>
   poll_run intervalMs st (before @ Fetched job # later) = poll_run intervalMs st (before @ [Fetched job])"
proof (induction before arbitrary: st)
  case Nil
  then show ?case by (simp add: poll_def poll_start_def poll_resume_def Let_def)
next
  case (Cons a before)
  then show ?case by (simp add: Let_def)
qed

lemma poll_run_throws:
  "active st \<Longrightarrow>
   timer (poll_run intervalMs st (replicate (Suc k) FetchThrows)) = Some (intervalMs * 2)
   \<and> active (poll_run intervalMs st (replicate (Suc k) FetchThrows))
   \<and> requests (poll_run intervalMs st (replicate (Suc k) FetchThrows)) = requests st + Suc k"
proof (induction k arbitrary: st)
  case 0
  then show ?case by (simp add: poll_def poll_start_def poll_resume_def Let_def)
next
  case (Suc k)
  let ?s = "poll intervalMs st FetchThrows"
  have a: "active ?s" and t: "timer ?s = Some (intervalMs * 2)" and r: "requests ?s = requests st + 1"
    using Suc.prems by (simp_all add: poll_def poll_start_def poll_resume_def Let_def)
  have "poll_run intervalMs st (replicate (Suc (Suc k)) FetchThrows)
        = poll_run intervalMs ?s (replicate (Suc k) FetchThrows)"
    using t by (simp add: Let_def)
  with Suc.IH [OF a] r show ?case by simp
qed

lemma getAll_simps [simp]:
  "getAll [] key = []"
  "getAll ((k, v) # fd) key = (if k = key then v # getAll fd key else getAll fd key)"
  "getAll (fd @ fd') key = getAll fd key @ getAll fd' key"
  by (simp_all add: getAll_def)

lemma formData_fields:
  "getAll (formData video subtitle (Some opts)) ''video'' = [Blob video]"
  "getAll (formData video subtitle (Some opts)) ''subtitle''
     = (case subtitle of None \<Rightarrow> [] | Some f \<Rightarrow> [Blob f])"
  "getAll (formData video subtitle (Some opts)) ''profile''
     = [Text (or_else (upload_options.profile opts) ''default'')]"
  "getAll (formData video subtitle (Some opts)) ''title''
     = (if truthy (upload_options.title opts) then [Text (the (upload_options.title opts))] else [])"
  "getAll (formData video subtitle (Some opts)) ''description''
     = [Text (or_else (description opts) [])]"
  "getAll (formData video subtitle (Some opts)) ''privacy''
     = [Text (or_else (map_option privacy_text (privacy opts)) ''private'')]"
  "getAll (formData video subtitle (Some opts)) ''language''
     = [Text (or_else (language opts) ''en'')]"
  by (simp_all add: formData_def Let_def split: option.splits)

lemma formData_omitted:
  "formData video subtitle None = formData video subtitle (Some no_options)"
  by (simp add: formData_def)

lemma privacy_text_nonempty: "privacy_text p \<noteq> []"
  by (cases p) simp_all

lemma or_else_cases:
  "or_else None d = d"
  "s \<noteq> [] \<Longrightarrow> or_else (Some s) d = s"
  "or_else (Some []) d = d"
  by (simp_all add: or_else_def)

section \<open>The claims about the client service\<close>

lemma poll_active:
  assumes "active st"
  shows "timer (poll intervalMs st answer)
           = (case answer of
                Fetched job \<Rightarrow> if completed job \<or> truthy (error job) then None else Some intervalMs
              | FetchThrows \<Rightarrow> Some (intervalMs * 2)
              | UpdateThrows job \<Rightarrow> Some (intervalMs * 2))"
    and "active (poll intervalMs st answer)
           = (case answer of
                Fetched job \<Rightarrow> \<not> (completed job \<or> truthy (error job))
              | FetchThrows \<Rightarrow> True
              | UpdateThrows job \<Rightarrow> True)"
    and "requests (poll intervalMs st answer) = requests st + 1"
    and "updates (poll intervalMs st answer)
           = updates st @ (case answer of Fetched job \<Rightarrow> [job] | FetchThrows \<Rightarrow> []
                            | UpdateThrows job \<Rightarrow> [job])"
  using assms
  by (cases answer; simp add: poll_def poll_start_def poll_resume_def Let_def)+

lemma truthy_iff: "truthy v \<longleftrightarrow> (\<exists>s. v = Some s \<and> s \<noteq> [])"
  by (cases v) (simp_all add: truthy_def)

lemma cancel_in_flight:
  assumes "active st"
  shows "updates (poll_resume intervalMs (cancel (snd (poll_start st))) (Fetched job))
           = updates st @ [job]"
    and "timer (poll_resume intervalMs (cancel (snd (poll_start st))) (Fetched job))
           = (if completed job \<or> truthy (error job) then None else Some intervalMs)"
    and "\<not> active (poll_resume intervalMs (cancel (snd (poll_start st))) answer)"
    and "requests (poll intervalMs (poll_resume intervalMs (cancel (snd (poll_start st))) answer) next_answer)
           = requests st + 1"
    and "timer (poll intervalMs (poll_resume intervalMs (cancel (snd (poll_start st))) answer) next_answer)
           = None"
    and "updates (poll intervalMs (poll_resume intervalMs (cancel (snd (poll_start st))) answer) next_answer)
           = updates (poll_resume intervalMs (cancel (snd (poll_start st))) answer)"
  using assms
  by (cases answer; simp add: poll_def poll_start_def poll_resume_def cancel_def Let_def)+

text \<open>
  Claim C9, as amended. While the poller is active and \<open>cancel\<close> is not called, every
  run of \<open>poll\<close> sends one request, and the poller stops (no timer is pending and the
  flag is off) exactly when the request yields a job with \<open>completed\<close> true or an
  \<open>error\<close> that is a string other than the empty one, and \<open>onUpdate\<close> returns for
  it. After any other job the next request is scheduled after the interval, 1000 ms
  when none is given. When the request throws, or \<open>onUpdate\<close> throws, whatever the job,
  the next request is scheduled after twice the interval, however many requests have
  thrown before (2000 ms by default). Once a job has stopped the poller, later answers
  change nothing. After \<open>cancel\<close> no request is sent: called between two runs, the
  next run does nothing; called while a request is in flight, that answer is still
  handed to \<open>onUpdate\<close> and a timer may be set, but the run it starts sends nothing.
\<close>

theorem polling_interval_and_stop:
  "(active st \<longrightarrow>
      (timer (poll intervalMs st answer) = None \<longleftrightarrow> (\<exists>j. answer = Fetched j \<and> (completed j \<or> (\<exists>s. error j = Some s \<and> s \<noteq> []))))
      \<and> (active (poll intervalMs st answer) \<longleftrightarrow> \<not> (\<exists>j. answer = Fetched j \<and> (completed j \<or> (\<exists>s. error j = Some s \<and> s \<noteq> []))))
      \<and> (timer (poll intervalMs st (Fetched job)) \<noteq> None \<longrightarrow>
           timer (poll intervalMs st (Fetched job)) = Some intervalMs)
      \<and> updates (poll intervalMs st (Fetched job)) = updates st @ [job]
      \<and> requests (poll intervalMs st answer) = requests st + 1
      \<and> timer (poll intervalMs st FetchThrows) = Some (intervalMs * 2)
      \<and> active (poll intervalMs st FetchThrows)
      \<and> timer (poll intervalMs st (UpdateThrows job)) = Some (intervalMs * 2)
      \<and> active (poll intervalMs st (UpdateThrows job))
      \<and> updates (poll intervalMs st (UpdateThrows job)) = updates st @ [job]
      \<and> timer (poll_run intervalMs st (replicate (Suc k) FetchThrows)) = Some (intervalMs * 2)
      \<and>
      updates (poll_resume intervalMs (cancel (snd (poll_start st))) (Fetched job))
          = updates st @ [job]
      \<and> timer (poll_resume intervalMs (cancel (snd (poll_start st))) (Fetched job))
          = (if completed job \<or> truthy (error job) then None else Some intervalMs)
      \<and> \<not> active (poll_resume intervalMs (cancel (snd (poll_start st))) answer)
      \<and> requests (poll intervalMs (poll_resume intervalMs (cancel (snd (poll_start st))) answer)
           next_answer) = requests st + 1
      \<and> timer (poll intervalMs (poll_resume intervalMs (cancel (snd (poll_start st))) answer)
           next_answer) = None
      \<and> updates (poll intervalMs (poll_resume intervalMs (cancel (snd (poll_start st))) answer)
           next_answer)
          = updates (poll_resume intervalMs (cancel (snd (poll_start st))) answer))
   \<and> timer (pollUploadStatus None [Fetched job])
       = (if completed job \<or> truthy (error job) then None else Some 1000)
   \<and> timer (pollUploadStatus None (replicate (Suc k) FetchThrows)) = Some 2000
   \<and> timer (pollUploadStatus None [UpdateThrows job]) = Some 2000
   \<and> (completed job \<or> truthy (error job) \<longrightarrow>
        pollUploadStatus interval_arg (before @ Fetched job # later)
          = pollUploadStatus interval_arg (before @ [Fetched job]))
   \<and> timer (poll intervalMs (cancel st) answer) = None
   \<and> requests (poll intervalMs (cancel st) answer) = requests st
   \<and> updates (poll intervalMs (cancel st) answer) = updates st"
proof -
  have X: "active st \<longrightarrow>
      (timer (poll intervalMs st answer) = None \<longleftrightarrow> (\<exists>j. answer = Fetched j \<and> (completed j \<or> (\<exists>s. error j = Some s \<and> s \<noteq> []))))
      \<and> (active (poll intervalMs st answer) \<longleftrightarrow> \<not> (\<exists>j. answer = Fetched j \<and> (completed j \<or> (\<exists>s. error j = Some s \<and> s \<noteq> []))))
      \<and> (timer (poll intervalMs st (Fetched job)) \<noteq> None \<longrightarrow>
           timer (poll intervalMs st (Fetched job)) = Some intervalMs)
      \<and> updates (poll intervalMs st (Fetched job)) = updates st @ [job]
      \<and> requests (poll intervalMs st answer) = requests st + 1
      \<and> timer (poll intervalMs st FetchThrows) = Some (intervalMs * 2)
      \<and> active (poll intervalMs st FetchThrows)
      \<and> timer (poll intervalMs st (UpdateThrows job)) = Some (intervalMs * 2)
      \<and> active (poll intervalMs st (UpdateThrows job))
      \<and> updates (poll intervalMs st (UpdateThrows job)) = updates st @ [job]
      \<and> timer (poll_run intervalMs st (replicate (Suc k) FetchThrows)) = Some (intervalMs * 2)
      \<and>
      updates (poll_resume intervalMs (cancel (snd (poll_start st))) (Fetched job))
          = updates st @ [job]
      \<and> timer (poll_resume intervalMs (cancel (snd (poll_start st))) (Fetched job))
          = (if completed job \<or> truthy (error job) then None else Some intervalMs)
      \<and> \<not> active (poll_resume intervalMs (cancel (snd (poll_start st))) answer)
      \<and> requests (poll intervalMs (poll_resume intervalMs (cancel (snd (poll_start st))) answer)
           next_answer) = requests st + 1
      \<and> timer (poll intervalMs (poll_resume intervalMs (cancel (snd (poll_start st))) answer)
           next_answer) = None
      \<and> updates (poll intervalMs (poll_resume intervalMs (cancel (snd (poll_start st))) answer)
           next_answer)
          = updates (poll_resume intervalMs (cancel (snd (poll_start st))) answer)"
  proof (rule impI)
    assume act: "active st"
    note p = poll_active [OF act, of intervalMs]
    note f = cancel_in_flight [OF act, of intervalMs]
    have a1: "timer (poll intervalMs st answer) = None \<longleftrightarrow> (\<exists>j. answer = Fetched j \<and> (completed j \<or> (\<exists>s. error j = Some s \<and> s \<noteq> [])))"
      unfolding p(1) [of answer] by (cases answer) (auto simp: truthy_iff)
    have a2: "active (poll intervalMs st answer) \<longleftrightarrow> \<not> (\<exists>j. answer = Fetched j \<and> (completed j \<or> (\<exists>s. error j = Some s \<and> s \<noteq> [])))"
      unfolding p(2) [of answer] by (cases answer) (auto simp: truthy_iff)
    have a3: "timer (poll intervalMs st (Fetched job)) \<noteq> None \<longrightarrow>
           timer (poll intervalMs st (Fetched job)) = Some intervalMs"
      by (simp add: p)
    have a4: "updates (poll intervalMs st (Fetched job)) = updates st @ [job]" by (simp add: p)
    have a5: "requests (poll intervalMs st answer) = requests st + 1" by (rule p(3))
    have a6: "timer (poll intervalMs st FetchThrows) = Some (intervalMs * 2)" by (simp add: p)
    have a7: "active (poll intervalMs st FetchThrows)" by (simp add: p)
    have a8: "timer (poll intervalMs st (UpdateThrows job)) = Some (intervalMs * 2)" by (simp add: p)
    have a9: "active (poll intervalMs st (UpdateThrows job))" by (simp add: p)
    have a10: "updates (poll intervalMs st (UpdateThrows job)) = updates st @ [job]" by (simp add: p)
    have t: "timer (poll_run intervalMs st (replicate (Suc k) FetchThrows)) = Some (intervalMs * 2)"
      using poll_run_throws [OF act] by simp
    show "
      (timer (poll intervalMs st answer) = None \<longleftrightarrow> (\<exists>j. answer = Fetched j \<and> (completed j \<or> (\<exists>s. error j = Some s \<and> s \<noteq> []))))
      \<and> (active (poll intervalMs st answer) \<longleftrightarrow> \<not> (\<exists>j. answer = Fetched j \<and> (completed j \<or> (\<exists>s. error j = Some s \<and> s \<noteq> []))))
      \<and> (timer (poll intervalMs st (Fetched job)) \<noteq> None \<longrightarrow>
           timer (poll intervalMs st (Fetched job)) = Some intervalMs)
      \<and> updates (poll intervalMs st (Fetched job)) = updates st @ [job]
      \<and> requests (poll intervalMs st answer) = requests st + 1
      \<and> timer (poll intervalMs st FetchThrows) = Some (intervalMs * 2)
      \<and> active (poll intervalMs st FetchThrows)
      \<and> timer (poll intervalMs st (UpdateThrows job)) = Some (intervalMs * 2)
      \<and> active (poll intervalMs st (UpdateThrows job))
      \<and> updates (poll intervalMs st (UpdateThrows job)) = updates st @ [job]
      \<and> timer (poll_run intervalMs st (replicate (Suc k) FetchThrows)) = Some (intervalMs * 2)
      \<and>
      updates (poll_resume intervalMs (cancel (snd (poll_start st))) (Fetched job))
          = updates st @ [job]
      \<and> timer (poll_resume intervalMs (cancel (snd (poll_start st))) (Fetched job))
          = (if completed job \<or> truthy (error job) then None else Some intervalMs)
      \<and> \<not> active (poll_resume intervalMs (cancel (snd (poll_start st))) answer)
      \<and> requests (poll intervalMs (poll_resume intervalMs (cancel (snd (poll_start st))) answer)
           next_answer) = requests st + 1
      \<and> timer (poll intervalMs (poll_resume intervalMs (cancel (snd (poll_start st))) answer)
           next_answer) = None
      \<and> updates (poll intervalMs (poll_resume intervalMs (cancel (snd (poll_start st))) answer)
           next_answer)
          = updates (poll_resume intervalMs (cancel (snd (poll_start st))) answer)"
      by (intro conjI) (rule a1 a2 a3 a4 a5 a6 a7 a8 a9 a10 t f)+
  qed
  have b1: "timer (pollUploadStatus None [Fetched job])
       = (if completed job \<or> truthy (error job) then None else Some 1000)"
    by (simp add: pollUploadStatus_def poll_def poll_start_def poll_resume_def Let_def)
  have b2: "timer (pollUploadStatus None [UpdateThrows job]) = Some 2000"
    by (simp add: pollUploadStatus_def poll_def poll_start_def poll_resume_def Let_def)
  have c: "timer (pollUploadStatus None (replicate (Suc k) FetchThrows)) = Some 2000"
    unfolding pollUploadStatus_def
    using poll_run_throws [of "\<lparr>active = True, updates = [], requests = 0, timer = None\<rparr>" 1000 k]
    by simp
  have d: "completed job \<or> truthy (error job) \<longrightarrow>
        pollUploadStatus interval_arg (before @ Fetched job # later)
          = pollUploadStatus interval_arg (before @ [Fetched job])"
  proof (rule impI)
    assume h: "completed job \<or> truthy (error job)"
    show "pollUploadStatus interval_arg (before @ Fetched job # later)
          = pollUploadStatus interval_arg (before @ [Fetched job])"
      unfolding pollUploadStatus_def by (rule poll_run_stopped [OF h])
  qed
  have e1: "timer (poll intervalMs (cancel st) answer) = None"
    and e2: "requests (poll intervalMs (cancel st) answer) = requests st"
    and e3: "updates (poll intervalMs (cancel st) answer) = updates st"
    by (simp_all add: poll_def poll_start_def cancel_def)
  show ?thesis
    by (intro conjI) (rule X b1 c b2 d e1 e2 e3)+
qed

theorem polling_interval_and_stop_witness:
  "active \<lparr>active = True, updates = [], requests = 0, timer = None\<rparr>
   \<and> completed \<lparr>job_id = ''j1'', UploadJob.profile = ''default'', video_filename = ''clip.mp4'', subtitle_filename = None, UploadJob.title = ''clip'', status = ''uploading'', video_progress = 40, video_id = None, video_url = None, subtitle_uploaded = False, completed = True, error = None, created_at = ''2024-01-01T00:00:00''\<rparr>
   \<and> timer (poll 1000 \<lparr>active = True, updates = [], requests = 0, timer = None\<rparr> (Fetched \<lparr>job_id = ''j1'', UploadJob.profile = ''default'', video_filename = ''clip.mp4'', subtitle_filename = None, UploadJob.title = ''clip'', status = ''uploading'', video_progress = 40, video_id = None, video_url = None, subtitle_uploaded = False, completed = True, error = None, created_at = ''2024-01-01T00:00:00''\<rparr>)) = None
   \<and> timer (poll 1000 \<lparr>active = True, updates = [], requests = 0, timer = None\<rparr> FetchThrows) = Some 2000
   \<and> timer (poll 1000 \<lparr>active = True, updates = [], requests = 0, timer = None\<rparr> (UpdateThrows \<lparr>job_id = ''j1'', UploadJob.profile = ''default'', video_filename = ''clip.mp4'', subtitle_filename = None, UploadJob.title = ''clip'', status = ''uploading'', video_progress = 40, video_id = None, video_url = None, subtitle_uploaded = False, completed = True, error = None, created_at = ''2024-01-01T00:00:00''\<rparr>)) = Some 2000"
proof -
  let ?st = "\<lparr>active = True, updates = [], requests = 0, timer = None\<rparr>"
  let ?j = "\<lparr>job_id = ''j1'', UploadJob.profile = ''default'', video_filename = ''clip.mp4'', subtitle_filename = None, UploadJob.title = ''clip'', status = ''uploading'', video_progress = 40, video_id = None, video_url = None, subtitle_uploaded = False, completed = True, error = None, created_at = ''2024-01-01T00:00:00''\<rparr>"
  have h: "active ?st" by simp
  have c: "completed ?j" by simp
  note t = polling_interval_and_stop
    [where st = ?st and intervalMs = 1000 and answer = "Fetched ?j" and job = ?j,
      THEN conjunct1, THEN mp, OF h]
  note a1 = t [THEN conjunct1]
  note a6 = t [THEN conjunct2, THEN conjunct2, THEN conjunct2, THEN conjunct2, THEN conjunct2,
      THEN conjunct1]
  note a8 = t [THEN conjunct2, THEN conjunct2, THEN conjunct2, THEN conjunct2, THEN conjunct2,
      THEN conjunct2, THEN conjunct2, THEN conjunct1]
  have r: "\<exists>j. Fetched ?j = Fetched j \<and> (completed j \<or> (\<exists>s. error j = Some s \<and> s \<noteq> []))"
    by (rule exI [of _ ?j]) simp
  from a1 r have x: "timer (poll 1000 ?st (Fetched ?j)) = None" by (rule iffD2)
  from a6 have y: "timer (poll 1000 ?st FetchThrows) = Some 2000" by simp
  from a8 have z: "timer (poll 1000 ?st (UpdateThrows ?j)) = Some 2000" by simp
  show ?thesis by (intro conjI) (rule h c x y z)+
qed

text \<open>
  The claim as stated fails twice over. For an error that is not null but empty, the
  test \<open>job.completed || job.error\<close> takes the empty string for false, so the next
  request is scheduled. And for a job with \<open>completed\<close> true whose \<open>onUpdate\<close> throws,
  the \<open>catch\<close> schedules the next request before the test is reached.
\<close>

theorem polling_continues_on_empty_error:
  "error \<lparr>job_id = ''j1'', UploadJob.profile = ''default'', video_filename = ''clip.mp4'', subtitle_filename = None, UploadJob.title = ''clip'', status = ''uploading'', video_progress = 40, video_id = None, video_url = None, subtitle_uploaded = False, completed = False, error = Some [], created_at = ''2024-01-01T00:00:00''\<rparr> \<noteq> None
   \<and> timer (pollUploadStatus None [Fetched \<lparr>job_id = ''j1'', UploadJob.profile = ''default'', video_filename = ''clip.mp4'', subtitle_filename = None, UploadJob.title = ''clip'', status = ''uploading'', video_progress = 40, video_id = None, video_url = None, subtitle_uploaded = False, completed = False, error = Some [], created_at = ''2024-01-01T00:00:00''\<rparr>]) = Some 1000
   \<and> active (pollUploadStatus None [Fetched \<lparr>job_id = ''j1'', UploadJob.profile = ''default'', video_filename = ''clip.mp4'', subtitle_filename = None, UploadJob.title = ''clip'', status = ''uploading'', video_progress = 40, video_id = None, video_url = None, subtitle_uploaded = False, completed = False, error = Some [], created_at = ''2024-01-01T00:00:00''\<rparr>])
   \<and> completed \<lparr>job_id = ''j1'', UploadJob.profile = ''default'', video_filename = ''clip.mp4'', subtitle_filename = None, UploadJob.title = ''clip'', status = ''uploading'', video_progress = 40, video_id = None, video_url = None, subtitle_uploaded = False, completed = True, error = None, created_at = ''2024-01-01T00:00:00''\<rparr>
   \<and> timer (pollUploadStatus None [UpdateThrows \<lparr>job_id = ''j1'', UploadJob.profile = ''default'', video_filename = ''clip.mp4'', subtitle_filename = None, UploadJob.title = ''clip'', status = ''uploading'', video_progress = 40, video_id = None, video_url = None, subtitle_uploaded = False, completed = True, error = None, created_at = ''2024-01-01T00:00:00''\<rparr>]) = Some 2000
   \<and> active (pollUploadStatus None [UpdateThrows \<lparr>job_id = ''j1'', UploadJob.profile = ''default'', video_filename = ''clip.mp4'', subtitle_filename = None, UploadJob.title = ''clip'', status = ''uploading'', video_progress = 40, video_id = None, video_url = None, subtitle_uploaded = False, completed = True, error = None, created_at = ''2024-01-01T00:00:00''\<rparr>])"
  by (simp add: pollUploadStatus_def poll_def poll_start_def poll_resume_def truthy_def Let_def)

text \<open>
  Claim C10. \<open>uploadVideo\<close> posts the form built from its arguments. The form always
  holds exactly one \<open>profile\<close>, \<open>description\<close>, \<open>privacy\<close> and \<open>language\<close>: the
  value given in the options, or \<open>default\<close>, the empty string, \<open>private\<close> and
  \<open>en\<close> where the option is unset, as for all four when the options are omitted. A
  \<open>title\<close> is in the form only when a title that is not empty was given, and a
  \<open>subtitle\<close> exactly when a subtitle file was passed.
\<close>

theorem upload_form_fields:
  "fst (uploadVideo video subtitle (Some opts) reply) = formData video subtitle (Some opts)
   \<and> fst (uploadVideo video subtitle None reply) = formData video subtitle (Some no_options)
   \<and> formData video None None
       = [(''video'', Blob video), (''profile'', Text ''default''), (''description'', Text []),
          (''privacy'', Text ''private''), (''language'', Text ''en'')]
   \<and> length (getAll (formData video subtitle (Some opts)) ''profile'') = 1
   \<and> length (getAll (formData video subtitle (Some opts)) ''description'') = 1
   \<and> length (getAll (formData video subtitle (Some opts)) ''privacy'') = 1
   \<and> length (getAll (formData video subtitle (Some opts)) ''language'') = 1
   \<and> (upload_options.profile opts = None \<longrightarrow>
        getAll (formData video subtitle (Some opts)) ''profile'' = [Text ''default''])
   \<and> (description opts = None \<longrightarrow>
        getAll (formData video subtitle (Some opts)) ''description'' = [Text []])
   \<and> (privacy opts = None \<longrightarrow>
        getAll (formData video subtitle (Some opts)) ''privacy'' = [Text ''private''])
   \<and> (language opts = None \<longrightarrow>
        getAll (formData video subtitle (Some opts)) ''language'' = [Text ''en''])
   \<and> (upload_options.profile opts = Some s \<and> s \<noteq> [] \<longrightarrow>
        getAll (formData video subtitle (Some opts)) ''profile'' = [Text s])
   \<and> (description opts = Some s \<longrightarrow>
        getAll (formData video subtitle (Some opts)) ''description'' = [Text s])
   \<and> (privacy opts = Some p \<longrightarrow>
        getAll (formData video subtitle (Some opts)) ''privacy'' = [Text (privacy_text p)])
   \<and> (language opts = Some s \<and> s \<noteq> [] \<longrightarrow>
        getAll (formData video subtitle (Some opts)) ''language'' = [Text s])
   \<and> (getAll (formData video subtitle (Some opts)) ''title'' \<noteq> [] \<longrightarrow>
        (\<exists>t. upload_options.title opts = Some t \<and> t \<noteq> []
             \<and> getAll (formData video subtitle (Some opts)) ''title'' = [Text t]))
   \<and> (upload_options.title opts = None \<longrightarrow>
        getAll (formData video subtitle (Some opts)) ''title'' = [])
   \<and> (upload_options.title opts = Some s \<and> s \<noteq> [] \<longrightarrow>
        getAll (formData video subtitle (Some opts)) ''title'' = [Text s])
   \<and> (getAll (formData video subtitle (Some opts)) ''subtitle'' \<noteq> [] \<longleftrightarrow> subtitle \<noteq> None)
   \<and> (subtitle = Some f \<longrightarrow>
        getAll (formData video subtitle (Some opts)) ''subtitle'' = [Blob f])"
proof -
  note f = formData_fields [of video subtitle opts]
  have a: "fst (uploadVideo video subtitle (Some opts) reply) = formData video subtitle (Some opts)"
    "fst (uploadVideo video subtitle None reply) = formData video subtitle (Some no_options)"
    by (simp_all add: uploadVideo_def formData_omitted)
  have b: "formData video None None
       = [(''video'', Blob video), (''profile'', Text ''default''), (''description'', Text []),
          (''privacy'', Text ''private''), (''language'', Text ''en'')]"
    by (simp add: formData_def no_options_def or_else_def truthy_def)
  have c: "length (getAll (formData video subtitle (Some opts)) ''profile'') = 1"
    "length (getAll (formData video subtitle (Some opts)) ''description'') = 1"
    "length (getAll (formData video subtitle (Some opts)) ''privacy'') = 1"
    "length (getAll (formData video subtitle (Some opts)) ''language'') = 1"
    by (simp_all add: f)
  have d: "upload_options.profile opts = None \<longrightarrow>
        getAll (formData video subtitle (Some opts)) ''profile'' = [Text ''default'']"
    "description opts = None \<longrightarrow>
        getAll (formData video subtitle (Some opts)) ''description'' = [Text []]"
    "privacy opts = None \<longrightarrow>
        getAll (formData video subtitle (Some opts)) ''privacy'' = [Text ''private'']"
    "language opts = None \<longrightarrow>
        getAll (formData video subtitle (Some opts)) ''language'' = [Text ''en'']"
    by (simp_all add: f or_else_cases)
  have e: "upload_options.profile opts = Some s \<and> s \<noteq> [] \<longrightarrow>
        getAll (formData video subtitle (Some opts)) ''profile'' = [Text s]"
    "description opts = Some s \<longrightarrow>
        getAll (formData video subtitle (Some opts)) ''description'' = [Text s]"
    "privacy opts = Some p \<longrightarrow>
        getAll (formData video subtitle (Some opts)) ''privacy'' = [Text (privacy_text p)]"
    "language opts = Some s \<and> s \<noteq> [] \<longrightarrow>
        getAll (formData video subtitle (Some opts)) ''language'' = [Text s]"
    by (auto simp: f or_else_def privacy_text_nonempty)
  have g: "getAll (formData video subtitle (Some opts)) ''title'' \<noteq> [] \<longrightarrow>
        (\<exists>t. upload_options.title opts = Some t \<and> t \<noteq> []
             \<and> getAll (formData video subtitle (Some opts)) ''title'' = [Text t])"
    "upload_options.title opts = None \<longrightarrow>
        getAll (formData video subtitle (Some opts)) ''title'' = []"
    "upload_options.title opts = Some s \<and> s \<noteq> [] \<longrightarrow>
        getAll (formData video subtitle (Some opts)) ''title'' = [Text s]"
    by (auto simp: f truthy_def split: option.splits)
  have h: "getAll (formData video subtitle (Some opts)) ''subtitle'' \<noteq> [] \<longleftrightarrow> subtitle \<noteq> None"
    "subtitle = Some f \<longrightarrow>
        getAll (formData video subtitle (Some opts)) ''subtitle'' = [Blob f]"
    by (auto simp: formData_fields split: option.splits)
  from a b c d e g h show ?thesis by blast
qed


theorem upload_form_fields_witness:
  "upload_options.profile \<lparr>profile = None, title = Some ''My clip'', description = None, privacy = Some Unlisted, language = None\<rparr> = None
   \<and> getAll (formData (File ''clip.mp4'') (Some (File ''clip.srt'')) (Some \<lparr>profile = None, title = Some ''My clip'', description = None, privacy = Some Unlisted, language = None\<rparr>)) ''profile'' = [Text ''default'']
   \<and> getAll (formData (File ''clip.mp4'') (Some (File ''clip.srt'')) (Some \<lparr>profile = None, title = Some ''My clip'', description = None, privacy = Some Unlisted, language = None\<rparr>)) ''language'' = [Text ''en'']
   \<and> getAll (formData (File ''clip.mp4'') (Some (File ''clip.srt'')) (Some \<lparr>profile = None, title = Some ''My clip'', description = None, privacy = Some Unlisted, language = None\<rparr>)) ''privacy'' = [Text ''unlisted'']
   \<and> getAll (formData (File ''clip.mp4'') (Some (File ''clip.srt'')) (Some \<lparr>profile = None, title = Some ''My clip'', description = None, privacy = Some Unlisted, language = None\<rparr>)) ''title'' = [Text ''My clip'']
   \<and> getAll (formData (File ''clip.mp4'') (Some (File ''clip.srt'')) (Some \<lparr>profile = None, title = Some ''My clip'', description = None, privacy = Some Unlisted, language = None\<rparr>)) ''subtitle'' = [Blob (File ''clip.srt'')]"
proof -
  let ?o = "\<lparr>profile = None, title = Some ''My clip'', description = None, privacy = Some Unlisted, language = None\<rparr>"
  have h1: "upload_options.profile ?o = None" by simp
  have h2: "language ?o = None" by simp
  have h3: "privacy ?o = Some Unlisted" by simp
  have h4: "upload_options.title ?o = Some ''My clip'' \<and> ''My clip'' \<noteq> []" by simp
  have h5: "(Some (File ''clip.srt'')) = Some (File ''clip.srt'')" by simp
  from upload_form_fields [where video = "(File ''clip.mp4'')" and subtitle = "(Some (File ''clip.srt''))" and opts = ?o
        and s = "''My clip''" and p = Unlisted and f = "File ''clip.srt''"] h1 h2 h3 h4 h5
  have "getAll (formData (File ''clip.mp4'') (Some (File ''clip.srt'')) (Some ?o)) ''profile'' = [Text ''default'']
      \<and> getAll (formData (File ''clip.mp4'') (Some (File ''clip.srt'')) (Some ?o)) ''language'' = [Text ''en'']
      \<and> getAll (formData (File ''clip.mp4'') (Some (File ''clip.srt'')) (Some ?o)) ''privacy'' = [Text (privacy_text Unlisted)]
      \<and> getAll (formData (File ''clip.mp4'') (Some (File ''clip.srt'')) (Some ?o)) ''title'' = [Text ''My clip'']
      \<and> getAll (formData (File ''clip.mp4'') (Some (File ''clip.srt'')) (Some ?o)) ''subtitle'' = [Blob (File ''clip.srt'')]"
    by blast
  with h1 show ?thesis by simp
qed

end
